theory Spec2Isabelle
  imports Complex_Main "HOL-Library.Log_Nat"
begin

section \<open>Supplier recommendation: the data model\<close>

text \<open>
  The recommender of \<^verbatim>\<open>microservice/model_handler.py\<close>, its HTTP endpoint in
  \<^verbatim>\<open>microservice/app.py\<close> and the copy of the recommender in
  \<^verbatim>\<open>supplier_recommendation.py\<close>.

  A float is the rational number that it denotes, and every operation on floats rounds
  its exact result to the nearest double, ties to even (\<open>fl\<close> below), as IEEE 754
  arithmetic does. Subnormal numbers are in the model; infinities and NaN are not: a
  result beyond the largest double is outside the model. The casts \<^verbatim>\<open>float(...)\<close>,
  \<^verbatim>\<open>int(...)\<close> and \<^verbatim>\<open>bool(...)\<close> of the microservice keep the value; what they change is
  which \<^verbatim>\<open>round\<close> the value meets, Python's or numpy's, and that is modelled.
\<close>

text \<open>The exceptions that the recommendation code can meet.\<close>

datatype py_error =
    KeyError string
  | IndexError
  | ValueError
  | ModelError

text \<open>A row of the dataset \<^verbatim>\<open>self.df\<close>; the columns that the code reads.\<close>

record offer =
  df_product_type :: string
  df_supplier_name :: string
  df_country :: string
  df_quality_rating :: rat
  df_price_usd :: rat
  df_delivery_days :: int
  df_payment_terms_days :: int
  df_shipping_included :: bool
  df_express_available :: bool
  df_incoterms :: string

text \<open>A cell of the one-row frame \<^verbatim>\<open>input_data\<close>.\<close>

datatype cell = IntV int | FloatV rat | StrV string

text \<open>
  The loaded system. \<open>model\<close> stands for \<^verbatim>\<open>self.model.predict_proba(X)[0]\<close> on a one-row
  frame given as its cells in column order; \<open>label_encoders\<close> lists each encoded feature
  with the \<^verbatim>\<open>classes_\<close> of its encoder, in the order of the dictionary's keys;
  \<open>target_encoder\<close> is \<^verbatim>\<open>self.target_encoder.classes_\<close>. \<open>float_str\<close> is Python's
  \<^verbatim>\<open>str\<close> of a float, which \<^verbatim>\<open>astype(str)\<close> applies to a numeric column.
\<close>

record system =
  model :: "cell list \<Rightarrow> py_error + rat list"
  label_encoders :: "(string \<times> string list) list"
  target_encoder :: "string list"
  feature_names :: "string list"
  df :: "offer list"
  float_str :: "rat \<Rightarrow> string"

text \<open>The dictionary built for one supplier.\<close>

record recommendation =
  supplier_name :: string
  country :: string
  quality_rating :: rat
  price_usd :: rat
  total_cost :: rat
  delivery_days :: int
  payment_terms_days :: int
  probability_score :: rat
  within_budget :: bool
  shipping_included :: bool
  express_available :: bool
  final_score :: rat
  recommendation_level :: string

text \<open>The dictionary returned on success.\<close>

record envelope =
  res_product_type :: string
  res_urgency :: string
  res_quantity :: int
  res_budget :: rat
  recommendations :: "recommendation list"
  total_options :: int

text \<open>
  The two \<^verbatim>\<open>{"error": ...}\<close> dictionaries. Each message is a fixed text followed by the
  printed list that the constructor carries:
  \<^verbatim>\<open>"Urgencia debe ser una de: [...]"\<close> and
  \<^verbatim>\<open>"Producto no encontrado. Tipos disponibles: [...]"\<close>.
\<close>

datatype error_dict =
    UrgenciaInvalida "string list"
  | ProductoNoEncontrado "string list"

datatype result = Error error_dict | Result envelope

section \<open>Library operations\<close>

text \<open>The nearest integer, ties to even.\<close>

definition round_half_even :: "rat \<Rightarrow> int" where
  "round_half_even s =
     (let f = \<lfloor>s\<rfloor>;
          d = s - of_int f
      in if d < 1 / 2 then f
         else if 1 / 2 < d then f + 1
         else if even f then f else f + 1)"

text \<open>
  The nearest double. \<open>ilog2 x\<close> is the exponent of the binade of a positive \<open>x\<close>,
  that is \<open>2\<^sup>e \<le> x < 2\<^sup>e\<^sup>+\<^sup>1\<close>; \<open>ulp x\<close> is the distance between
  neighbouring doubles there, with the exponent held at \<open>-1022\<close> in the subnormal
  range; \<open>fl x\<close> is the multiple of \<open>ulp x\<close> nearest to \<open>x\<close>, ties to the even
  multiple. A decimal literal \<^verbatim>\<open>0.4\<close> of the source is the double \<open>fl 0.4\<close>;
  literals such as \<^verbatim>\<open>0.25\<close>, \<^verbatim>\<open>5.0\<close> or \<^verbatim>\<open>300\<close> are doubles themselves.
\<close>

definition ilog2 :: "rat \<Rightarrow> int" where
  "ilog2 x =
     (let (p, q) = quotient_of x;
          d = bitlen p - bitlen q
      in if 2 powi d \<le> x then d else d - 1)"

definition ulp :: "rat \<Rightarrow> rat" where
  "ulp x = 2 powi (max (ilog2 \<bar>x\<bar>) (- 1022) - 52)"

definition fl :: "rat \<Rightarrow> rat" where
  "fl x = of_int (round_half_even (x / ulp x)) * ulp x"

text \<open>\<^verbatim>\<open>+\<close>, \<^verbatim>\<open>*\<close> and \<^verbatim>\<open>/\<close> on floats (the divisors of the code are the constants
  \<^verbatim>\<open>5.0\<close> and powers of ten), and an integer operand converted to a float.\<close>

definition fadd :: "rat \<Rightarrow> rat \<Rightarrow> rat" where
  "fadd x y = fl (x + y)"

definition fmul :: "rat \<Rightarrow> rat \<Rightarrow> rat" where
  "fmul x y = fl (x * y)"

definition fdiv :: "rat \<Rightarrow> rat \<Rightarrow> rat" where
  "fdiv x y = fl (x / y)"

definition float_of_int :: "int \<Rightarrow> rat" where
  "float_of_int i = fl (of_int i)"

text \<open>Python's \<^verbatim>\<open>round(x, ndigits)\<close> on a \<^verbatim>\<open>float\<close>: the exact value of \<open>x\<close> is
  rounded to \<open>ndigits\<close> decimal places, ties to even, and the decimal result is read
  back as a double.\<close>

definition py_round :: "rat \<Rightarrow> nat \<Rightarrow> rat" where
  "py_round x ndigits = fl (of_int (round_half_even (x * 10 ^ ndigits)) / 10 ^ ndigits)"

text \<open>\<^verbatim>\<open>round(x, decimals)\<close> on a \<^verbatim>\<open>numpy.float64\<close>: numpy multiplies by the power
  of ten, rounds the product to the nearest integer (\<^verbatim>\<open>rint\<close>, ties to even) and divides,
  each step in float arithmetic.\<close>

definition np_round :: "rat \<Rightarrow> nat \<Rightarrow> rat" where
  "np_round x decimals =
     fdiv (of_int (round_half_even (fmul x (10 ^ decimals)))) (10 ^ decimals)"

text \<open>\<^verbatim>\<open>str\<close> of an integer.\<close>

fun str_nat :: "nat \<Rightarrow> string" where
  "str_nat n =
     (if n < 10 then [char_of (48 + n)]
      else str_nat (n div 10) @ [char_of (48 + n mod 10)])"

definition str_int :: "int \<Rightarrow> string" where
  "str_int i = (if i < 0 then CHR ''-'' # str_nat (nat (- i)) else str_nat (nat i))"

text \<open>pandas' \<^verbatim>\<open>unique()\<close>: the distinct values in order of first appearance.\<close>

fun unique_from :: "'a list \<Rightarrow> 'a list \<Rightarrow> 'a list" where
  "unique_from seen [] = []"
| "unique_from seen (x # xs) =
     (if x \<in> set seen then unique_from seen xs else x # unique_from (x # seen) xs)"

definition unique :: "'a list \<Rightarrow> 'a list" where
  "unique xs = unique_from [] xs"

text \<open>\<^verbatim>\<open>.iloc[0]\<close> raises on an empty frame.\<close>

definition iloc0 :: "'a list \<Rightarrow> py_error + 'a" where
  "iloc0 rows = (case rows of [] \<Rightarrow> Inl IndexError | r # _ \<Rightarrow> Inr r)"

text \<open>\<^verbatim>\<open>np.where(classes == name)[0]\<close>: the positions that hold the name.\<close>

definition np_where :: "string list \<Rightarrow> string \<Rightarrow> nat list" where
  "np_where classes name = filter (\<lambda>i. classes ! i = name) [0..<length classes]"

text \<open>Indexing an array at a position that is not negative.\<close>

definition getitem :: "'a list \<Rightarrow> nat \<Rightarrow> py_error + 'a" where
  "getitem xs i = (if i < length xs then Inr (xs ! i) else Inl IndexError)"

text \<open>\<^verbatim>\<open>LabelEncoder.transform\<close> of one label: its position in \<^verbatim>\<open>classes_\<close>, and
  \<^verbatim>\<open>ValueError\<close> for a label that was not seen in training.\<close>

fun index_of :: "'a \<Rightarrow> 'a list \<Rightarrow> nat option" where
  "index_of v [] = None"
| "index_of v (c # cs) =
     (if c = v then Some 0 else map_option Suc (index_of v cs))"

definition transform :: "string list \<Rightarrow> string \<Rightarrow> py_error + int" where
  "transform classes v =
     (case index_of v classes of None \<Rightarrow> Inl ValueError | Some i \<Rightarrow> Inr (int i))"

text \<open>\<^verbatim>\<open>astype(str)\<close> of a cell.\<close>

definition astype_str :: "system \<Rightarrow> cell \<Rightarrow> string" where
  "astype_str s c =
     (case c of IntV i \<Rightarrow> str_int i | FloatV x \<Rightarrow> float_str s x | StrV t \<Rightarrow> t)"

text \<open>Column assignment \<^verbatim>\<open>input_data[feature] = v\<close> for a column that exists.\<close>

fun assign :: "string \<Rightarrow> cell \<Rightarrow> (string \<times> cell) list \<Rightarrow> (string \<times> cell) list" where
  "assign k v [] = [(k, v)]"
| "assign k v ((k', v') # kvs) =
     (if k' = k then (k, v) # kvs else (k', v') # assign k v kvs)"

text \<open>\<^verbatim>\<open>input_data[self.feature_names]\<close>: the named columns in the given order;
  \<^verbatim>\<open>KeyError\<close> for a name that is not a column.\<close>

fun select_columns :: "(string \<times> cell) list \<Rightarrow> string list \<Rightarrow> py_error + cell list" where
  "select_columns frame [] = Inr []"
| "select_columns frame (n # ns) =
     (case map_of frame n of
        None \<Rightarrow> Inl (KeyError n)
      | Some c \<Rightarrow>
          (case select_columns frame ns of
             Inl e \<Rightarrow> Inl e
           | Inr cs \<Rightarrow> Inr (c # cs)))"

text \<open>\<^verbatim>\<open>list.sort(key=..., reverse=...)\<close>. The sort is stable; with \<^verbatim>\<open>reverse=True\<close> the
  list is reversed, sorted and reversed again, which keeps equal keys in their
  original order.\<close>

definition list_sort :: "('a \<Rightarrow> rat) \<Rightarrow> bool \<Rightarrow> 'a list \<Rightarrow> 'a list" where
  "list_sort key reverse xs =
     (if reverse then rev (sort_key key (rev xs)) else sort_key key xs)"

section \<open>The recommender of the microservice\<close>

definition valid_urgencies :: "string list" where
  "valid_urgencies = [''Low'', ''Medium'', ''High'', ''Critical'']"

text \<open>The frame \<^verbatim>\<open>input_data\<close>; \<open>now_month\<close> is \<^verbatim>\<open>datetime.now().month\<close>.\<close>

definition make_input_data ::
  "int \<Rightarrow> string \<Rightarrow> string \<Rightarrow> int \<Rightarrow> rat \<Rightarrow> offer \<Rightarrow> (string \<times> cell) list" where
  "make_input_data now_month product_type urgency quantity budget supplier_data =
     [(''price_usd'', FloatV (df_price_usd supplier_data)),
      (''delivery_days'', IntV (df_delivery_days supplier_data)),
      (''payment_terms_days'', IntV (df_payment_terms_days supplier_data)),
      (''shipping_included'', IntV (if df_shipping_included supplier_data then 1 else 0)),
      (''express_available'', IntV (if df_express_available supplier_data then 1 else 0)),
      (''order_urgency'', StrV urgency),
      (''quantity_needed'', IntV quantity),
      (''budget_available'', FloatV budget),
      (''product_type'', StrV product_type),
      (''incoterms'', StrV (df_incoterms supplier_data)),
      (''month'', IntV now_month),
      (''quarter'', StrV (''Q'' @ str_int ((now_month - 1) div 3 + 1)))]"

text \<open>The encoding loop: a feature that is a column is replaced by its code, and by 0
  when \<^verbatim>\<open>transform\<close> raises \<^verbatim>\<open>ValueError\<close>; any other exception propagates.\<close>

fun apply_encoding ::
  "system \<Rightarrow> (string \<times> string list) list \<Rightarrow> (string \<times> cell) list
     \<Rightarrow> py_error + (string \<times> cell) list" where
  "apply_encoding s [] input_data = Inr input_data"
| "apply_encoding s ((feature, classes) # encoders) input_data =
     (case map_of input_data feature of
        None \<Rightarrow> apply_encoding s encoders input_data
      | Some c \<Rightarrow>
          (case transform classes (astype_str s c) of
             Inr code \<Rightarrow> apply_encoding s encoders (assign feature (IntV code) input_data)
           | Inl ValueError \<Rightarrow> apply_encoding s encoders (assign feature (IntV 0) input_data)
           | Inl e \<Rightarrow> Inl e))"

text \<open>The probability of the supplier's class, 0.0 for a name that is not a class.\<close>

definition supplier_probability :: "string list \<Rightarrow> rat list \<Rightarrow> string \<Rightarrow> py_error + rat" where
  "supplier_probability classes probabilities name =
     (let supplier_idx = np_where classes name
      in if length supplier_idx > 0 then getitem probabilities (hd supplier_idx)
         else Inr 0.0)"

text \<open>Costs, the dictionary, the final score and the level. The sum is evaluated from
  left to right, each product and each sum rounded to a double; the values are Python
  floats after \<^verbatim>\<open>float(...)\<close>, so \<^verbatim>\<open>round\<close> is Python's.\<close>

definition make_recommendation :: "string \<Rightarrow> offer \<Rightarrow> int \<Rightarrow> rat \<Rightarrow> rat \<Rightarrow> recommendation" where
  "make_recommendation name supplier_data quantity budget probability =
     (let cost = fmul (df_price_usd supplier_data) (float_of_int quantity);
          cost = (if \<not> df_shipping_included supplier_data then fadd cost 300 else cost);
          r_quality_rating = df_quality_rating supplier_data;
          r_delivery_days = df_delivery_days supplier_data;
          r_payment_terms_days = df_payment_terms_days supplier_data;
          r_probability_score = py_round probability 3;
          r_within_budget = (cost \<le> budget);
          quality_score = fdiv r_quality_rating 5.0;
          price_score = (if r_within_budget then 1.0 else 0.5);
          delivery_score = (if r_delivery_days \<le> 15 then 1.0 else fl 0.7);
          payment_score = (if r_payment_terms_days > 0 then 1.0 else fl 0.8);
          score =
            fadd (fadd (fadd (fadd (fmul r_probability_score (fl 0.4))
                                   (fmul quality_score 0.25))
                             (fmul price_score (fl 0.2)))
                       (fmul delivery_score (fl 0.1)))
                 (fmul payment_score (fl 0.05))
      in \<lparr> supplier_name = name,
           country = df_country supplier_data,
           quality_rating = r_quality_rating,
           price_usd = df_price_usd supplier_data,
           total_cost = py_round cost 2,
           delivery_days = r_delivery_days,
           payment_terms_days = r_payment_terms_days,
           probability_score = r_probability_score,
           within_budget = r_within_budget,
           shipping_included = df_shipping_included supplier_data,
           express_available = df_express_available supplier_data,
           final_score = py_round score 3,
           recommendation_level =
             (if score \<ge> 0.75 then ''Altamente Recomendado''
              else if score \<ge> fl 0.6 then ''Recomendado''
              else if score \<ge> fl 0.45 then ''Aceptable''
              else ''No Recomendado'') \<rparr>)"

text \<open>The body of the loop for one supplier name.\<close>

definition recommendation_for ::
  "system \<Rightarrow> int \<Rightarrow> string \<Rightarrow> string \<Rightarrow> int \<Rightarrow> rat \<Rightarrow> offer list \<Rightarrow> string
     \<Rightarrow> py_error + recommendation" where
  "recommendation_for s now_month product_type urgency quantity budget available_products name =
     (case iloc0 (filter (\<lambda>row. df_supplier_name row = name) available_products) of
        Inl e \<Rightarrow> Inl e
      | Inr supplier_data \<Rightarrow>
          (case apply_encoding s (label_encoders s)
                  (make_input_data now_month product_type urgency quantity budget supplier_data) of
             Inl e \<Rightarrow> Inl e
           | Inr input_data \<Rightarrow>
               (case select_columns input_data (feature_names s) of
                  Inl e \<Rightarrow> Inl e
                | Inr X \<Rightarrow>
                    (case model s X of
                       Inl e \<Rightarrow> Inl e
                     | Inr probabilities \<Rightarrow>
                         (case supplier_probability (target_encoder s) probabilities name of
                            Inl e \<Rightarrow> Inl e
                          | Inr probability \<Rightarrow>
                              Inr (make_recommendation name supplier_data quantity budget
                                     probability))))))"

text \<open>The loop over the supplier names: the first exception ends the call.\<close>

fun recommendations_loop ::
  "system \<Rightarrow> int \<Rightarrow> string \<Rightarrow> string \<Rightarrow> int \<Rightarrow> rat \<Rightarrow> offer list \<Rightarrow> string list
     \<Rightarrow> py_error + recommendation list" where
  "recommendations_loop s now_month product_type urgency quantity budget available_products [] =
     Inr []"
| "recommendations_loop s now_month product_type urgency quantity budget available_products
     (name # names) =
     (case recommendation_for s now_month product_type urgency quantity budget
             available_products name of
        Inl e \<Rightarrow> Inl e
      | Inr r \<Rightarrow>
          (case recommendations_loop s now_month product_type urgency quantity budget
                  available_products names of
             Inl e \<Rightarrow> Inl e
           | Inr rs \<Rightarrow> Inr (r # rs)))"

definition recommend_suppliers ::
  "system \<Rightarrow> int \<Rightarrow> string \<Rightarrow> string \<Rightarrow> int \<Rightarrow> rat \<Rightarrow> py_error + result" where
  "recommend_suppliers s now_month product_type urgency quantity budget =
     (if urgency \<notin> set valid_urgencies then Inr (Error (UrgenciaInvalida valid_urgencies))
      else
        let available_products = filter (\<lambda>row. df_product_type row = product_type) (df s)
        in if available_products = []
           then Inr (Error (ProductoNoEncontrado (unique (map df_product_type (df s)))))
           else
             (case recommendations_loop s now_month product_type urgency quantity budget
                     available_products (unique (map df_supplier_name available_products)) of
                Inl e \<Rightarrow> Inl e
              | Inr rs \<Rightarrow>
                  let sorted_rs = list_sort final_score True rs
                  in Inr (Result \<lparr> res_product_type = product_type,
                                    res_urgency = urgency,
                                    res_quantity = quantity,
                                    res_budget = budget,
                                    recommendations = sorted_rs,
                                    total_options = int (length sorted_rs) \<rparr>)))"

section \<open>The HTTP endpoint\<close>

text \<open>
  \<^verbatim>\<open>POST /recommend\<close> of \<^verbatim>\<open>app.py\<close>. An \<^verbatim>\<open>HTTPException\<close> carries a status code and a
  detail. The call of the recommender and the \<^verbatim>\<open>raise HTTPException(status_code=400, ...)\<close>
  for an error dictionary stand inside one \<^verbatim>\<open>try\<close> whose handler is
  \<^verbatim>\<open>except Exception\<close>: everything raised there is raised again with status 500 and the
  detail \<^verbatim>\<open>"Error en recomendacion: " + str(e)\<close>.
\<close>

datatype caught = Raised py_error | Http400 error_dict

datatype detail =
    SistemaNoInicializado
  | UrgenciaDetail "string list"
  | CantidadDetail
  | PresupuestoDetail
  | ErrorEnRecomendacion caught

datatype http_result = HTTPException nat detail | Response envelope

record request =
  req_product_type :: string
  req_urgency :: string
  req_quantity :: int
  req_budget :: rat

definition api_recommend_suppliers :: "system option \<Rightarrow> int \<Rightarrow> request \<Rightarrow> http_result" where
  "api_recommend_suppliers recommender now_month request =
     (case recommender of
        None \<Rightarrow> HTTPException 500 SistemaNoInicializado
      | Some r \<Rightarrow>
          if req_urgency request \<notin> set [''Low'', ''Medium'', ''High'', ''Critical'']
          then HTTPException 400 (UrgenciaDetail [''Low'', ''Medium'', ''High'', ''Critical''])
          else if req_quantity request \<le> 0 then HTTPException 400 CantidadDetail
          else if req_budget request \<le> 0 then HTTPException 400 PresupuestoDetail
          else
            (case recommend_suppliers r now_month (req_product_type request)
                    (req_urgency request) (req_quantity request) (req_budget request) of
               Inl e \<Rightarrow> HTTPException 500 (ErrorEnRecomendacion (Raised e))
             | Inr (Error msg) \<Rightarrow> HTTPException 500 (ErrorEnRecomendacion (Http400 msg))
             | Inr (Result res) \<Rightarrow> Response res))"

section \<open>The recommender of the command-line program\<close>

text \<open>
  \<^verbatim>\<open>SupplierRecommender.recommend_suppliers\<close> of \<^verbatim>\<open>supplier_recommendation.py\<close>, translated
  on its own. Its levels start with a symbol, given here by its UTF-8 bytes: a star
  (U+2B50) or a cross (U+274C). It has no \<^verbatim>\<open>float(...)\<close> casts: the cost and the score
  are \<^verbatim>\<open>numpy.float64\<close> values and meet numpy's \<^verbatim>\<open>round\<close>; the probability is a
  \<^verbatim>\<open>numpy.float64\<close> when it is read from the classifier's output and the Python float
  \<^verbatim>\<open>0.0\<close> otherwise.
\<close>

datatype number = PyFloat rat | Float64 rat

definition round_number :: "number \<Rightarrow> nat \<Rightarrow> rat" where
  "round_number x ndigits =
     (case x of PyFloat v \<Rightarrow> py_round v ndigits | Float64 v \<Rightarrow> np_round v ndigits)"

definition star :: string where
  "star = [CHR 0xE2, CHR 0xAD, CHR 0x90]"

definition cross :: string where
  "cross = [CHR 0xE2, CHR 0x9D, CHR 0x8C]"

definition cli_make_input_data ::
  "int \<Rightarrow> string \<Rightarrow> string \<Rightarrow> int \<Rightarrow> rat \<Rightarrow> offer \<Rightarrow> (string \<times> cell) list" where
  "cli_make_input_data now_month product_type urgency quantity budget supplier_data =
     [(''price_usd'', FloatV (df_price_usd supplier_data)),
      (''delivery_days'', IntV (df_delivery_days supplier_data)),
      (''payment_terms_days'', IntV (df_payment_terms_days supplier_data)),
      (''shipping_included'', IntV (if df_shipping_included supplier_data then 1 else 0)),
      (''express_available'', IntV (if df_express_available supplier_data then 1 else 0)),
      (''order_urgency'', StrV urgency),
      (''quantity_needed'', IntV quantity),
      (''budget_available'', FloatV budget),
      (''product_type'', StrV product_type),
      (''incoterms'', StrV (df_incoterms supplier_data)),
      (''month'', IntV now_month),
      (''quarter'', StrV (''Q'' @ str_int ((now_month - 1) div 3 + 1)))]"

fun cli_apply_encoding ::
  "system \<Rightarrow> (string \<times> string list) list \<Rightarrow> (string \<times> cell) list
     \<Rightarrow> py_error + (string \<times> cell) list" where
  "cli_apply_encoding s [] input_data = Inr input_data"
| "cli_apply_encoding s ((feature, classes) # encoders) input_data =
     (case map_of input_data feature of
        None \<Rightarrow> cli_apply_encoding s encoders input_data
      | Some c \<Rightarrow>
          (case transform classes (astype_str s c) of
             Inr code \<Rightarrow> cli_apply_encoding s encoders (assign feature (IntV code) input_data)
           | Inl ValueError \<Rightarrow> cli_apply_encoding s encoders (assign feature (IntV 0) input_data)
           | Inl e \<Rightarrow> Inl e))"

definition cli_supplier_probability ::
  "string list \<Rightarrow> rat list \<Rightarrow> string \<Rightarrow> py_error + number" where
  "cli_supplier_probability classes probabilities name =
     (let supplier_idx = np_where classes name
      in if length supplier_idx > 0
         then (case getitem probabilities (hd supplier_idx) of
                 Inl e \<Rightarrow> Inl e
               | Inr v \<Rightarrow> Inr (Float64 v))
         else Inr (PyFloat 0.0))"

definition cli_make_recommendation ::
  "string \<Rightarrow> offer \<Rightarrow> int \<Rightarrow> rat \<Rightarrow> number \<Rightarrow> recommendation" where
  "cli_make_recommendation name supplier_data quantity budget probability =
     (let cost = fmul (df_price_usd supplier_data) (float_of_int quantity);
          cost = (if \<not> df_shipping_included supplier_data then fadd cost 300 else cost);
          r_quality_rating = df_quality_rating supplier_data;
          r_delivery_days = df_delivery_days supplier_data;
          r_payment_terms_days = df_payment_terms_days supplier_data;
          r_probability_score = round_number probability 3;
          r_within_budget = (cost \<le> budget);
          quality_score = fdiv r_quality_rating 5.0;
          price_score = (if r_within_budget then 1.0 else 0.5);
          delivery_score = (if r_delivery_days \<le> 15 then 1.0 else fl 0.7);
          payment_score = (if r_payment_terms_days > 0 then 1.0 else fl 0.8);
          score =
            fadd (fadd (fadd (fadd (fmul r_probability_score (fl 0.4))
                                   (fmul quality_score 0.25))
                             (fmul price_score (fl 0.2)))
                       (fmul delivery_score (fl 0.1)))
                 (fmul payment_score (fl 0.05))
      in \<lparr> supplier_name = name,
           country = df_country supplier_data,
           quality_rating = r_quality_rating,
           price_usd = df_price_usd supplier_data,
           total_cost = np_round cost 2,
           delivery_days = r_delivery_days,
           payment_terms_days = r_payment_terms_days,
           probability_score = r_probability_score,
           within_budget = r_within_budget,
           shipping_included = df_shipping_included supplier_data,
           express_available = df_express_available supplier_data,
           final_score = np_round score 3,
           recommendation_level =
             (if score \<ge> 0.75 then star @ star @ star @ '' Altamente Recomendado''
              else if score \<ge> fl 0.6 then star @ star @ '' Recomendado''
              else if score \<ge> fl 0.45 then star @ '' Aceptable''
              else cross @ '' No Recomendado'') \<rparr>)"

definition cli_recommendation_for ::
  "system \<Rightarrow> int \<Rightarrow> string \<Rightarrow> string \<Rightarrow> int \<Rightarrow> rat \<Rightarrow> offer list \<Rightarrow> string
     \<Rightarrow> py_error + recommendation" where
  "cli_recommendation_for s now_month product_type urgency quantity budget available_products
     name =
     (case iloc0 (filter (\<lambda>row. df_supplier_name row = name) available_products) of
        Inl e \<Rightarrow> Inl e
      | Inr supplier_data \<Rightarrow>
          (case cli_apply_encoding s (label_encoders s)
                  (cli_make_input_data now_month product_type urgency quantity budget
                     supplier_data) of
             Inl e \<Rightarrow> Inl e
           | Inr input_data \<Rightarrow>
               (case select_columns input_data (feature_names s) of
                  Inl e \<Rightarrow> Inl e
                | Inr X \<Rightarrow>
                    (case model s X of
                       Inl e \<Rightarrow> Inl e
                     | Inr probabilities \<Rightarrow>
                         (case cli_supplier_probability (target_encoder s) probabilities name of
                            Inl e \<Rightarrow> Inl e
                          | Inr probability \<Rightarrow>
                              Inr (cli_make_recommendation name supplier_data quantity budget
                                     probability))))))"

fun cli_recommendations_loop ::
  "system \<Rightarrow> int \<Rightarrow> string \<Rightarrow> string \<Rightarrow> int \<Rightarrow> rat \<Rightarrow> offer list \<Rightarrow> string list
     \<Rightarrow> py_error + recommendation list" where
  "cli_recommendations_loop s now_month product_type urgency quantity budget available_products
     [] = Inr []"
| "cli_recommendations_loop s now_month product_type urgency quantity budget available_products
     (name # names) =
     (case cli_recommendation_for s now_month product_type urgency quantity budget
             available_products name of
        Inl e \<Rightarrow> Inl e
      | Inr r \<Rightarrow>
          (case cli_recommendations_loop s now_month product_type urgency quantity budget
                  available_products names of
             Inl e \<Rightarrow> Inl e
           | Inr rs \<Rightarrow> Inr (r # rs)))"

definition cli_recommend_suppliers ::
  "system \<Rightarrow> int \<Rightarrow> string \<Rightarrow> string \<Rightarrow> int \<Rightarrow> rat \<Rightarrow> py_error + result" where
  "cli_recommend_suppliers s now_month product_type urgency quantity budget =
     (if urgency \<notin> set [''Low'', ''Medium'', ''High'', ''Critical'']
      then Inr (Error (UrgenciaInvalida [''Low'', ''Medium'', ''High'', ''Critical'']))
      else
        let available_products = filter (\<lambda>row. df_product_type row = product_type) (df s)
        in if available_products = []
           then Inr (Error (ProductoNoEncontrado (unique (map df_product_type (df s)))))
           else
             (case cli_recommendations_loop s now_month product_type urgency quantity budget
                     available_products (unique (map df_supplier_name available_products)) of
                Inl e \<Rightarrow> Inl e
              | Inr rs \<Rightarrow>
                  let sorted_rs = list_sort final_score True rs
                  in Inr (Result \<lparr> res_product_type = product_type,
                                    res_urgency = urgency,
                                    res_quantity = quantity,
                                    res_budget = budget,
                                    recommendations = sorted_rs,
                                    total_options = int (length sorted_rs) \<rparr>)))"

section \<open>Notions used to state the properties\<close>

text \<open>The weighted sum of the sub-scores in float arithmetic, from left to right,
  computed from the fields of an entry.\<close>

definition weighted_sum :: "recommendation \<Rightarrow> rat" where
  "weighted_sum r =
     fadd (fadd (fadd (fadd (fmul (probability_score r) (fl 0.4))
                            (fmul (fdiv (quality_rating r) 5.0) 0.25))
                      (fmul (if within_budget r then 1.0 else 0.5) (fl 0.2)))
                (fmul (if delivery_days r \<le> 15 then 1.0 else fl 0.7) (fl 0.1)))
          (fmul (if payment_terms_days r > 0 then 1.0 else fl 0.8) (fl 0.05))"

text \<open>The same sum with a given probability in place of the entry's probability score,
  in float arithmetic and in exact arithmetic.\<close>

definition weighted_sum_with :: "rat \<Rightarrow> recommendation \<Rightarrow> rat" where
  "weighted_sum_with probability r =
     fadd (fadd (fadd (fadd (fmul probability (fl 0.4))
                            (fmul (fdiv (quality_rating r) 5.0) 0.25))
                      (fmul (if within_budget r then 1.0 else 0.5) (fl 0.2)))
                (fmul (if delivery_days r \<le> 15 then 1.0 else fl 0.7) (fl 0.1)))
          (fmul (if payment_terms_days r > 0 then 1.0 else fl 0.8) (fl 0.05))"

definition exact_sum_with :: "rat \<Rightarrow> recommendation \<Rightarrow> rat" where
  "exact_sum_with probability r =
     0.4 * probability + 0.25 * (quality_rating r / 5.0)
     + 0.2 * (if within_budget r then 1.0 else 0.5)
     + 0.1 * (if delivery_days r \<le> 15 then 1.0 else 0.7)
     + 0.05 * (if payment_terms_days r > 0 then 1.0 else 0.8)"

text \<open>The four levels by their thresholds, from high to low; the thresholds are the
  doubles of the literals \<^verbatim>\<open>0.75\<close>, \<^verbatim>\<open>0.6\<close> and \<^verbatim>\<open>0.45\<close>.\<close>

definition level_of :: "rat \<Rightarrow> string" where
  "level_of x =
     (if x \<ge> 0.75 then ''Altamente Recomendado''
      else if x \<ge> fl 0.6 then ''Recomendado''
      else if x \<ge> fl 0.45 then ''Aceptable''
      else ''No Recomendado'')"

text \<open>The cost of an offer, in float arithmetic, before it is rounded for the entry.\<close>

definition cost_of :: "offer \<Rightarrow> int \<Rightarrow> rat" where
  "cost_of row quantity =
     (if df_shipping_included row then fmul (df_price_usd row) (float_of_int quantity)
      else fadd (fmul (df_price_usd row) (float_of_int quantity)) 300)"

text \<open>The finite doubles: a significand of at most 53 bits and an exponent from the
  smallest subnormal upwards.\<close>

definition finite_double :: "rat \<Rightarrow> bool" where
  "finite_double c \<longleftrightarrow> (\<exists>n k. \<bar>n\<bar> \<le> 2 ^ 53 \<and> - 1074 \<le> k \<and> c = of_int n * 2 powi k)"

text \<open>The rows of the requested product, and the first of them for a supplier.\<close>

definition rows_of :: "system \<Rightarrow> string \<Rightarrow> offer list" where
  "rows_of s product_type = filter (\<lambda>row. df_product_type row = product_type) (df s)"

definition first_row :: "offer list \<Rightarrow> string \<Rightarrow> offer option" where
  "first_row rows name = find (\<lambda>row. df_supplier_name row = name) rows"

text \<open>The columns of \<^verbatim>\<open>input_data\<close>; a system whose feature names are among them, and
  whose classifier answers every frame with one probability per class at least.\<close>

definition input_columns :: "string list" where
  "input_columns =
     [''price_usd'', ''delivery_days'', ''payment_terms_days'', ''shipping_included'',
      ''express_available'', ''order_urgency'', ''quantity_needed'', ''budget_available'',
      ''product_type'', ''incoterms'', ''month'', ''quarter'']"

definition schema_ok :: "system \<Rightarrow> bool" where
  "schema_ok s \<longleftrightarrow> set (feature_names s) \<subseteq> set input_columns"

definition classifier_ok :: "system \<Rightarrow> bool" where
  "classifier_ok s \<longleftrightarrow>
     (\<forall>X. \<exists>ps. model s X = Inr ps \<and> length (target_encoder s) \<le> length ps)"

text \<open>Two entries that agree in every field that is copied from the row or compared
  without rounding.\<close>

definition same_offer :: "recommendation \<Rightarrow> recommendation \<Rightarrow> bool" where
  "same_offer r c \<longleftrightarrow>
     supplier_name c = supplier_name r \<and> country c = country r
     \<and> quality_rating c = quality_rating r \<and> price_usd c = price_usd r
     \<and> delivery_days c = delivery_days r \<and> payment_terms_days c = payment_terms_days r
     \<and> within_budget c = within_budget r \<and> shipping_included c = shipping_included r
     \<and> express_available c = express_available r"

text \<open>The four levels of the command-line program by the same thresholds.\<close>

definition cli_level_of :: "rat \<Rightarrow> string" where
  "cli_level_of x =
     (if x \<ge> 0.75 then star @ star @ star @ '' Altamente Recomendado''
      else if x \<ge> fl 0.6 then star @ star @ '' Recomendado''
      else if x \<ge> fl 0.45 then star @ '' Aceptable''
      else cross @ '' No Recomendado'')"

text \<open>An entry of the microservice and the entry that the command-line program builds
  for the same supplier: from the same first row and from the same probability, which
  the command-line program holds as a \<^verbatim>\<open>numpy.float64\<close> when the supplier is a class
  of the target encoder and as the Python float \<^verbatim>\<open>0.0\<close> otherwise.\<close>

definition cli_counterpart ::
  "system \<Rightarrow> int \<Rightarrow> string \<Rightarrow> string \<Rightarrow> int \<Rightarrow> rat \<Rightarrow> offer list
     \<Rightarrow> recommendation \<Rightarrow> recommendation \<Rightarrow> bool" where
  "cli_counterpart s m pt u q b rows r c \<longleftrightarrow>
     (\<exists>row input X ps p.
         first_row rows (supplier_name r) = Some row
       \<and> apply_encoding s (label_encoders s) (make_input_data m pt u q b row) = Inr input
       \<and> select_columns input (feature_names s) = Inr X
       \<and> model s X = Inr ps
       \<and> supplier_probability (target_encoder s) ps (supplier_name r) = Inr p
       \<and> r = make_recommendation (supplier_name r) row q b p
       \<and> c = cli_make_recommendation (supplier_name r) row q b
               (if supplier_name r \<in> set (target_encoder s) then Float64 p else PyFloat 0.0))"

text \<open>A call that returned the dictionary of a successful recommendation.\<close>

definition returns_result :: "py_error + result \<Rightarrow> bool" where
  "returns_result x = (case x of Inr (Result env) \<Rightarrow> True | _ \<Rightarrow> False)"

section \<open>Example data\<close>

definition demo_alfa :: offer where
  "demo_alfa =
     \<lparr> df_product_type = ''valve_butterfly'', df_supplier_name = ''Alfa'',
       df_country = ''Peru'', df_quality_rating = 4.0, df_price_usd = 100,
       df_delivery_days = 10, df_payment_terms_days = 30, df_shipping_included = True,
       df_express_available = False, df_incoterms = ''FOB'' \<rparr>"

definition demo_beta :: offer where
  "demo_beta =
     \<lparr> df_product_type = ''valve_butterfly'', df_supplier_name = ''Beta'',
       df_country = ''Chile'', df_quality_rating = 4.0, df_price_usd = fl 100.004,
       df_delivery_days = 10, df_payment_terms_days = 30, df_shipping_included = True,
       df_express_available = True, df_incoterms = ''CIF'' \<rparr>"

definition demo_alfa_late :: offer where
  "demo_alfa_late =
     \<lparr> df_product_type = ''valve_butterfly'', df_supplier_name = ''Alfa'',
       df_country = ''Peru'', df_quality_rating = 2.0, df_price_usd = 900,
       df_delivery_days = 40, df_payment_terms_days = 0, df_shipping_included = False,
       df_express_available = False, df_incoterms = ''FOB'' \<rparr>"

definition demo_gamma :: offer where
  "demo_gamma =
     \<lparr> df_product_type = ''valve_butterfly'', df_supplier_name = ''Gamma'',
       df_country = ''Mexico'', df_quality_rating = 3.0, df_price_usd = 50,
       df_delivery_days = 20, df_payment_terms_days = 0, df_shipping_included = False,
       df_express_available = False, df_incoterms = ''DAP'' \<rparr>"

definition demo_roll :: offer where
  "demo_roll =
     \<lparr> df_product_type = ''filter_cloth_roll'', df_supplier_name = ''Beta'',
       df_country = ''Chile'', df_quality_rating = 5.0, df_price_usd = 2000,
       df_delivery_days = 30, df_payment_terms_days = 60, df_shipping_included = True,
       df_express_available = False, df_incoterms = ''CIF'' \<rparr>"

definition demo_system :: system where
  "demo_system =
     \<lparr> model = (\<lambda>X. Inr [fl 0.0014, fl 0.4995]),
       label_encoders =
         [(''order_urgency'', [''Critical'', ''High'', ''Low'', ''Medium'']),
          (''product_type'', [''filter_cloth_roll'', ''valve_butterfly'']),
          (''incoterms'', [''CIF'', ''FOB'']),
          (''quarter'', [''Q1'', ''Q2'', ''Q3'', ''Q4''])],
       target_encoder = [''Alfa'', ''Beta''],
       feature_names =
         [''price_usd'', ''delivery_days'', ''payment_terms_days'', ''shipping_included'',
          ''express_available'', ''order_urgency'', ''quantity_needed'', ''budget_available'',
          ''product_type'', ''incoterms'', ''month'', ''quarter''],
       df = [demo_alfa, demo_roll, demo_beta, demo_alfa_late, demo_gamma],
       float_str = (\<lambda>x. []) \<rparr>"

text \<open>The entries of the example for one unit and a budget of 600.\<close>

definition demo_entry_alfa :: recommendation where
  "demo_entry_alfa =
     \<lparr> supplier_name = ''Alfa'', country = ''Peru'', quality_rating = 4, price_usd = 100,
       total_cost = 100, delivery_days = 10, payment_terms_days = 30,
       probability_score = fl 0.001, within_budget = True, shipping_included = True,
       express_available = False, final_score = fl 0.55,
       recommendation_level = ''Aceptable'' \<rparr>"

definition demo_entry_beta :: recommendation where
  "demo_entry_beta =
     \<lparr> supplier_name = ''Beta'', country = ''Chile'', quality_rating = 4,
       price_usd = fl 100.004, total_cost = 100, delivery_days = 10, payment_terms_days = 30,
       probability_score = fl 0.499, within_budget = True, shipping_included = True,
       express_available = True, final_score = 0.75,
       recommendation_level = ''Recomendado'' \<rparr>"

definition demo_entry_gamma :: recommendation where
  "demo_entry_gamma =
     \<lparr> supplier_name = ''Gamma'', country = ''Mexico'', quality_rating = 3, price_usd = 50,
       total_cost = 350, delivery_days = 20, payment_terms_days = 0,
       probability_score = 0, within_budget = True, shipping_included = False,
       express_available = False, final_score = fl 0.46,
       recommendation_level = ''Aceptable'' \<rparr>"

definition demo_envelope :: envelope where
  "demo_envelope =
     \<lparr> res_product_type = ''valve_butterfly'', res_urgency = ''Low'', res_quantity = 1,
       res_budget = 600,
       recommendations = [demo_entry_beta, demo_entry_alfa, demo_entry_gamma],
       total_options = 3 \<rparr>"

text \<open>The entries of the example for one unit and a budget of 100.\<close>

definition demo_entry_beta_100 :: recommendation where
  "demo_entry_beta_100 =
     \<lparr> supplier_name = ''Beta'', country = ''Chile'', quality_rating = 4,
       price_usd = fl 100.004, total_cost = 100, delivery_days = 10, payment_terms_days = 30,
       probability_score = fl 0.499, within_budget = False, shipping_included = True,
       express_available = True, final_score = fl 0.65,
       recommendation_level = ''Recomendado'' \<rparr>"

definition demo_entry_gamma_100 :: recommendation where
  "demo_entry_gamma_100 =
     \<lparr> supplier_name = ''Gamma'', country = ''Mexico'', quality_rating = 3, price_usd = 50,
       total_cost = 350, delivery_days = 20, payment_terms_days = 0,
       probability_score = 0, within_budget = False, shipping_included = False,
       express_available = False, final_score = fl 0.36,
       recommendation_level = ''No Recomendado'' \<rparr>"

definition demo_envelope_100 :: envelope where
  "demo_envelope_100 =
     \<lparr> res_product_type = ''valve_butterfly'', res_urgency = ''Low'', res_quantity = 1,
       res_budget = 100,
       recommendations = [demo_entry_beta_100, demo_entry_alfa, demo_entry_gamma_100],
       total_options = 3 \<rparr>"

text \<open>The entries of the command-line program for one unit and a budget of 600.\<close>

definition demo_cli_alfa :: recommendation where
  "demo_cli_alfa = demo_entry_alfa\<lparr>recommendation_level := star @ '' Aceptable''\<rparr>"

definition demo_cli_beta :: recommendation where
  "demo_cli_beta =
     demo_entry_beta\<lparr>probability_score := 0.5,
       recommendation_level := star @ star @ star @ '' Altamente Recomendado''\<rparr>"

definition demo_cli_gamma :: recommendation where
  "demo_cli_gamma = demo_entry_gamma\<lparr>recommendation_level := star @ '' Aceptable''\<rparr>"

definition demo_cli_envelope :: envelope where
  "demo_cli_envelope =
     demo_envelope\<lparr>recommendations := [demo_cli_beta, demo_cli_alfa, demo_cli_gamma]\<rparr>"

section \<open>Properties of the library operations\<close>

subsection \<open>rounding\<close>

lemma round_half_even_floor:
  "\<lfloor>s\<rfloor> \<le> round_half_even s" "round_half_even s \<le> \<lfloor>s\<rfloor> + 1"
  by (simp_all add: round_half_even_def Let_def)

lemma round_half_even_error: "\<bar>of_int (round_half_even s) - s\<bar> \<le> 1 / 2"
proof -
  have "of_int \<lfloor>s\<rfloor> \<le> s" "s < of_int \<lfloor>s\<rfloor> + 1" by linarith+
  then show ?thesis by (auto simp add: round_half_even_def Let_def)
qed

lemma round_half_even_of_int: "round_half_even (of_int k) = k"
  by (simp add: round_half_even_def)

lemma round_half_even_unique:
  assumes "\<bar>s - of_int k\<bar> < 1 / 2"
  shows "round_half_even s = k"
proof -
  have e: "\<bar>of_int (round_half_even s) - s\<bar> \<le> 1 / 2" by (rule round_half_even_error)
  have "\<bar>(of_int (round_half_even s) :: rat) - of_int k\<bar> < 1" using e assms by linarith
  then have "\<bar>(of_int (round_half_even s - k) :: rat)\<bar> < of_int 1" by simp
  then have "\<bar>round_half_even s - k\<bar> < 1" by (simp only: of_int_abs[symmetric] of_int_less_iff)
  then show ?thesis by simp
qed

lemma round_half_even_le_int:
  assumes "s \<le> of_int j"
  shows "round_half_even s \<le> j"
proof (cases "s = of_int j")
  case True
  then show ?thesis by (simp add: round_half_even_of_int)
next
  case False
  then have "s < of_int j" using assms by simp
  then have "\<lfloor>s\<rfloor> < j" by (simp add: floor_less_iff)
  then show ?thesis using round_half_even_floor(2)[of s] by linarith
qed

lemma round_half_even_ge_int:
  assumes "of_int j \<le> s"
  shows "j \<le> round_half_even s"
proof -
  have "j \<le> \<lfloor>s\<rfloor>" using assms by (simp add: le_floor_iff)
  then show ?thesis using round_half_even_floor(1)[of s] by linarith
qed

subsection \<open>the binade of a positive rational\<close>

lemma bitlen_powi:
  assumes "0 < p"
  shows "2 powi (bitlen p - 1) \<le> (of_int p :: rat)" "(of_int p :: rat) < 2 powi (bitlen p)"
proof -
  have b: "2 ^ nat (bitlen p - 1) \<le> p" "p < 2 ^ nat (bitlen p)"
    using bitlen_bounds[OF assms] by simp_all
  have pos: "1 \<le> bitlen p" using assms by (metis bitlen_bounds bitlen_nonneg int_one_le_iff_zero_less
        less_le not_less power_0 nat_0_iff order.strict_trans2 zero_less_one)
  have "(of_int (2 ^ nat (bitlen p - 1)) :: rat) \<le> of_int p" using b(1) by (simp only: of_int_le_iff)
  then show "2 powi (bitlen p - 1) \<le> (of_int p :: rat)"
    using pos by (simp add: power_int_def)
  have "(of_int p :: rat) < of_int (2 ^ nat (bitlen p))" using b(2) by (simp only: of_int_less_iff)
  then show "(of_int p :: rat) < 2 powi (bitlen p)"
    using pos by (simp add: power_int_def)
qed


lemma powi2_less_iff: "(2 :: rat) powi a < 2 powi b \<longleftrightarrow> a < b"
proof
  assume l: "(2 :: rat) powi a < 2 powi b"
  show "a < b"
  proof (rule ccontr)
    assume "\<not> a < b"
    then have "b \<le> a" by simp
    then have "(2 :: rat) powi b \<le> 2 powi a" by (rule power_int_increasing) simp
    with l show False by simp
  qed
next
  assume "a < b"
  then show "(2 :: rat) powi a < 2 powi b" by (rule power_int_strict_increasing) simp
qed

lemma powi2_le_iff: "(2 :: rat) powi a \<le> 2 powi b \<longleftrightarrow> a \<le> b"
  using powi2_less_iff[of b a] by (simp add: not_less[symmetric])

lemma powi2_pos: "0 < (2 :: rat) powi a"
  by simp

lemma powi2_add: "(2 :: rat) powi (a + b) = 2 powi a * 2 powi b"
  by (simp add: power_int_add)

lemma powi2_split: "(2 :: rat) powi a = 2 powi b * 2 powi (a - b)"
proof -
  have "b + (a - b) = a" by simp
  then show ?thesis by (metis powi2_add)
qed

lemma ilog2_bounds:
  assumes "0 < x"
  shows "2 powi (ilog2 x) \<le> x" "x < 2 powi (ilog2 x + 1)"
proof -
  obtain p q where pq: "quotient_of x = (p, q)" by (cases "quotient_of x")
  have q: "0 < q" using quotient_of_denom_pos[OF pq] .
  have x: "x = of_int p / of_int q" using quotient_of_div[OF pq] .
  have p: "0 < p" using assms q unfolding x by (simp add: zero_less_divide_iff)
  define d where "d = bitlen p - bitlen q"
  have qr: "0 < (of_int q :: rat)" using q by simp
  have up: "x < 2 powi (d + 1)"
  proof -
    have "x * of_int q = of_int p" using qr unfolding x by simp
    also have "\<dots> < 2 powi (bitlen p)" by (rule bitlen_powi(2)[OF p])
    also have "\<dots> = 2 powi (d + 1) * 2 powi (bitlen q - 1)"
      unfolding d_def by (simp add: power_int_add[symmetric])
    also have "\<dots> \<le> 2 powi (d + 1) * of_int q"
      by (rule mult_left_mono[OF bitlen_powi(1)[OF q]]) simp
    finally show ?thesis using qr by simp
  qed
  have lo: "2 powi (d - 1) < x"
  proof -
    have "(2 :: rat) powi (d - 1) * of_int q < 2 powi (d - 1) * 2 powi (bitlen q)"
      by (rule mult_strict_left_mono[OF bitlen_powi(2)[OF q]]) simp
    also have "\<dots> = 2 powi (bitlen p - 1)"
      unfolding d_def by (simp add: power_int_add[symmetric])
    also have "\<dots> \<le> of_int p" by (rule bitlen_powi(1)[OF p])
    also have "\<dots> = x * of_int q" using qr unfolding x by simp
    finally show ?thesis using qr by simp
  qed
  have i: "ilog2 x = (if 2 powi d \<le> x then d else d - 1)"
    by (simp add: ilog2_def pq d_def Let_def)
  show "2 powi (ilog2 x) \<le> x" unfolding i using lo by auto
  show "x < 2 powi (ilog2 x + 1)" unfolding i using up by auto
qed

lemma ilog2_unique:
  assumes "2 powi e \<le> x" "x < 2 powi (e + 1)"
  shows "ilog2 x = e"
proof -
  have pos: "0 < x" using assms(1) by (rule less_le_trans[rotated]) simp
  have a: "2 powi (ilog2 x) < (2 :: rat) powi (e + 1)"
    using ilog2_bounds(1)[OF pos] assms(2) by simp
  have b: "2 powi e < (2 :: rat) powi (ilog2 x + 1)"
    using ilog2_bounds(2)[OF pos] assms(1) by simp
  have "ilog2 x < e + 1" using a by (simp only: powi2_less_iff)
  moreover have "e < ilog2 x + 1" using b by (simp only: powi2_less_iff)
  ultimately show ?thesis by simp
qed


subsection \<open>rounding to a double\<close>

lemma round_half_even_tie:
  "round_half_even (of_int f + 1 / 2) = (if even f then f else f + 1)"
proof -
  have "\<lfloor>(of_int f :: rat) + 1 / 2\<rfloor> = f" by (rule floor_unique) simp_all
  then show ?thesis by (simp add: round_half_even_def)
qed

lemma round_half_even_minus: "round_half_even (- s) = - round_half_even s"
proof -
  define f where "f = \<lfloor>s\<rfloor>"
  define d where "d = s - of_int f"
  have s: "s = of_int f + d" by (simp add: d_def)
  have d: "0 \<le> d" "d < 1" unfolding d_def f_def by linarith+
  consider "d < 1 / 2" | "1 / 2 < d" | "d = 1 / 2" by linarith
  then show ?thesis
  proof cases
    case 1
    have a: "round_half_even s = f" by (rule round_half_even_unique) (use 1 d s in simp)
    have "round_half_even (- s) = - f" by (rule round_half_even_unique) (use 1 d s in simp)
    with a show ?thesis by simp
  next
    case 2
    have a: "round_half_even s = f + 1"
      by (rule round_half_even_unique) (use 2 d s in \<open>simp add: abs_if\<close>)
    have "round_half_even (- s) = - (f + 1)"
      by (rule round_half_even_unique) (use 2 d s in \<open>simp add: abs_if\<close>)
    with a show ?thesis by simp
  next
    case 3
    have a: "round_half_even s = (if even f then f else f + 1)"
      unfolding s 3 by (rule round_half_even_tie)
    have "- s = of_int (- (f + 1)) + 1 / 2" unfolding s 3 by simp
    then have "round_half_even (- s) = (if even (- (f + 1)) then - (f + 1) else - (f + 1) + 1)"
      using round_half_even_tie[of "- (f + 1)"] by simp
    with a show ?thesis by simp
  qed
qed

lemma ulp_pos: "0 < ulp x"
  by (simp add: ulp_def)

lemma ulp_minus: "ulp (- x) = ulp x"
  by (simp add: ulp_def)

lemma fl_zero: "fl 0 = 0"
  by (simp add: fl_def round_half_even_def)

lemma fl_minus: "fl (- x) = - fl x"
  by (simp add: fl_def ulp_minus round_half_even_minus)

lemma ulp_eq:
  assumes "2 powi e \<le> \<bar>x\<bar>" "\<bar>x\<bar> < 2 powi (e + 1)"
  shows "ulp x = 2 powi (max e (- 1022) - 52)"
  using ilog2_unique[OF assms] by (simp add: ulp_def)

lemma fl_eqI:
  assumes "2 powi e \<le> \<bar>x\<bar>" "\<bar>x\<bar> < 2 powi (e + 1)" "- 1022 \<le> e"
    and "\<bar>x / 2 powi (e - 52) - of_int m\<bar> < 1 / 2"
    and "b = of_int m * 2 powi (e - 52)"
  shows "fl x = b"
proof -
  have u: "ulp x = 2 powi (e - 52)" using ulp_eq[OF assms(1,2)] assms(3) by (simp add: max_def)
  have "round_half_even (x / 2 powi (e - 52)) = m"
    by (rule round_half_even_unique[OF assms(4)])
  then show ?thesis unfolding fl_def u assms(5) by simp
qed

lemma finite_doubleI:
  "\<bar>n\<bar> \<le> 2 ^ 53 \<Longrightarrow> - 1074 \<le> k \<Longrightarrow> c = of_int n * 2 powi k \<Longrightarrow> finite_double c"
  unfolding finite_double_def by blast

lemma finite_double_minus: "finite_double c \<Longrightarrow> finite_double (- c)"
proof -
  assume "finite_double c"
  then obtain n k where "\<bar>n\<bar> \<le> 2 ^ 53" "- 1074 \<le> k" "c = of_int n * 2 powi k"
    unfolding finite_double_def by blast
  then show ?thesis by (intro finite_doubleI[of "- n" k]) simp_all
qed

lemma finite_double_zero: "finite_double 0"
  by (rule finite_doubleI[of 0 0]) simp_all

lemma finite_double_of_int: "\<bar>n\<bar> \<le> 2 ^ 53 \<Longrightarrow> finite_double (of_int n)"
  by (rule finite_doubleI[of n 0]) simp_all

text \<open>For \<open>x \<noteq> 0\<close>: the exponent of its binade, clipped at the subnormal range.\<close>

lemma binade:
  assumes "x \<noteq> 0"
  obtains E where "2 powi E \<le> \<bar>x\<bar>" "\<bar>x\<bar> < 2 powi (E + 1)" "ulp x = 2 powi (max E (- 1022) - 52)"
proof -
  have "0 < \<bar>x\<bar>" using assms by simp
  then have "2 powi (ilog2 \<bar>x\<bar>) \<le> \<bar>x\<bar>" "\<bar>x\<bar> < 2 powi (ilog2 \<bar>x\<bar> + 1)"
    by (rule ilog2_bounds)+
  then show ?thesis using that[of "ilog2 \<bar>x\<bar>"] by (simp add: ulp_def)
qed

lemma scaled_bound:
  assumes "x \<noteq> 0"
  shows "\<bar>x / ulp x\<bar> < 2 ^ 53"
proof -
  obtain E where E: "2 powi E \<le> \<bar>x\<bar>" "\<bar>x\<bar> < 2 powi (E + 1)"
    "ulp x = 2 powi (max E (- 1022) - 52)"
    using binade[OF assms] by blast
  have "\<bar>x\<bar> < 2 powi (E + 1)" by (rule E(2))
  also have "\<dots> \<le> 2 powi (max E (- 1022) + 1)" by (simp add: powi2_le_iff)
  also have "\<dots> = 2 powi 53 * 2 powi (max E (- 1022) + 1 - 53)" by (rule powi2_split)
  also have "\<dots> = 2 powi 53 * ulp x" unfolding E(3) by simp
  finally have "\<bar>x\<bar> / ulp x < 2 powi 53" using ulp_pos[of x] by (simp add: pos_divide_less_eq)
  then show ?thesis using ulp_pos[of x] by (simp add: abs_divide)
qed

lemma finite_double_fl: "finite_double (fl x)"
proof (cases "x = 0")
  case True
  then show ?thesis by (simp add: fl_zero finite_double_zero)
next
  case False
  obtain E where E: "ulp x = 2 powi (max E (- 1022) - 52)" using binade[OF False] by blast
  define y where "y = x / ulp x"
  have y: "\<bar>y\<bar> < 2 ^ 53" unfolding y_def by (rule scaled_bound[OF False])
  then have "y < of_int (2 ^ 53)" "of_int (- (2 ^ 53)) < y" by (simp_all add: abs_less_iff)
  then have "round_half_even y \<le> 2 ^ 53" "- (2 ^ 53) \<le> round_half_even y"
    using round_half_even_le_int[of y "2 ^ 53"] round_half_even_ge_int[of "- (2 ^ 53)" y]
    by simp_all
  then have m: "\<bar>round_half_even y\<bar> \<le> 2 ^ 53" by (simp add: abs_le_iff)
  show ?thesis
    by (rule finite_doubleI[OF m, of "max E (- 1022) - 52"]) (simp_all add: fl_def y_def E)
qed


lemma powi2_nonneg_int: "0 \<le> k \<Longrightarrow> (2 :: rat) powi k = of_int (2 ^ nat k)"
  by (simp add: power_int_def)

lemma finite_double_multiple:
  assumes "finite_double c" "- 1022 \<le> e" "2 powi e \<le> \<bar>c\<bar> \<or> e = - 1022"
  shows "\<exists>j. c = of_int j * 2 powi (e - 52)"
proof -
  obtain n k where n: "\<bar>n\<bar> \<le> 2 ^ 53" and k: "- 1074 \<le> k" and c: "c = of_int n * 2 powi k"
    using assms(1) unfolding finite_double_def by blast
  show ?thesis
  proof (cases "e - 52 \<le> k")
    case True
    have "c = of_int n * (2 powi (e - 52) * 2 powi (k - (e - 52)))"
      unfolding c using powi2_split[of k "e - 52"] by simp
    also have "\<dots> = of_int n * (2 powi (e - 52) * of_int (2 ^ nat (k - (e - 52))))"
      using True by (simp add: powi2_nonneg_int)
    also have "\<dots> = of_int (n * 2 ^ nat (k - (e - 52))) * 2 powi (e - 52)" by simp
    finally show ?thesis by blast
  next
    case False
    then have ne: "e \<noteq> - 1022" using k by simp
    then have big: "2 powi e \<le> \<bar>c\<bar>" using assms(3) by simp
    have nr: "\<bar>of_int n :: rat\<bar> \<le> 2 ^ 53" using n by (metis of_int_abs of_int_le_iff of_int_numeral of_int_power)
    have "\<bar>c\<bar> = \<bar>of_int n\<bar> * 2 powi k" unfolding c by (simp add: abs_mult)
    also have "\<dots> \<le> 2 ^ 53 * 2 powi k" by (rule mult_right_mono[OF nr]) simp
    also have "\<dots> = 2 powi 53 * 2 powi k" by simp
    also have "\<dots> = 2 powi (53 + k)" by (rule powi2_add[symmetric])
    finally have "(2 :: rat) powi e \<le> 2 powi (53 + k)" using big by simp
    then have "e \<le> 53 + k" by (simp only: powi2_le_iff)
    then have ke: "k = e - 53" using False by simp
    have s: "(2 :: rat) powi (e - 52) = 2 * 2 powi (e - 53)"
      using powi2_add[of 1 "e - 53"] by (simp add: add.commute)
    have "2 powi e = (2 :: rat) powi 53 * 2 powi (e - 53)" by (rule powi2_split)
    then have "(2 :: rat) ^ 53 * 2 powi (e - 53) \<le> \<bar>of_int n\<bar> * 2 powi (e - 53)"
      using big unfolding c ke by (simp add: abs_mult)
    then have "(2 :: rat) ^ 53 \<le> \<bar>of_int n\<bar>" by (simp add: mult_le_cancel_right)
    then have "\<bar>of_int n :: rat\<bar> = 2 ^ 53" using nr by simp
    then have "(of_int n :: rat) = 2 ^ 53 \<or> (of_int n :: rat) = - (2 ^ 53)"
      by (simp add: abs_if split: if_splits)
    then show ?thesis
    proof
      assume "(of_int n :: rat) = 2 ^ 53"
      then have "c = of_int (2 ^ 52) * 2 powi (e - 52)" unfolding c ke s by simp
      then show ?thesis by blast
    next
      assume "(of_int n :: rat) = - (2 ^ 53)"
      then have "c = of_int (- (2 ^ 52)) * 2 powi (e - 52)" unfolding c ke s by simp
      then show ?thesis by blast
    qed
  qed
qed

text \<open>Rounding never crosses a double: a double above \<open>x\<close> stays above the rounded
  \<open>x\<close>, and a double below stays below.\<close>

lemma fl_le:
  assumes "x \<le> c" "finite_double c"
  shows "fl x \<le> c"
proof (cases "x = 0")
  case True
  then show ?thesis using assms(1) by (simp add: fl_zero)
next
  case False
  obtain E where E: "2 powi E \<le> \<bar>x\<bar>" "\<bar>x\<bar> < 2 powi (E + 1)"
    "ulp x = 2 powi (max E (- 1022) - 52)"
    using binade[OF False] by blast
  define e where "e = max E (- 1022)"
  have u: "ulp x = 2 powi (e - 52)" unfolding e_def by (rule E(3))
  have up: "0 < (2 :: rat) powi (e - 52)" by simp
  have e: "- 1022 \<le> e" unfolding e_def by simp
  show ?thesis
  proof (cases "2 powi e \<le> \<bar>c\<bar> \<or> e = - 1022")
    case True
    obtain j where j: "c = of_int j * 2 powi (e - 52)"
      using finite_double_multiple[OF assms(2) e True] by blast
    have "x / 2 powi (e - 52) \<le> of_int j"
      using assms(1) up unfolding j by (simp add: pos_divide_le_eq)
    then have "round_half_even (x / 2 powi (e - 52)) \<le> j" by (rule round_half_even_le_int)
    then have "(of_int (round_half_even (x / 2 powi (e - 52))) :: rat) \<le> of_int j"
      by (simp only: of_int_le_iff)
    then show ?thesis unfolding fl_def u j by (rule mult_right_mono) simp
  next
    case False
    then have c: "\<bar>c\<bar> < 2 powi e" and "e \<noteq> - 1022" by simp_all
    then have eE: "e = E" unfolding e_def by (simp add: max_def split: if_splits)
    have neg: "x < 0"
    proof (rule ccontr)
      assume "\<not> x < 0"
      then have "\<bar>x\<bar> = x" by simp
      then have "2 powi e \<le> c" using E(1) assms(1) eE by simp
      then show False using c by simp
    qed
    have "2 powi e = (2 :: rat) powi 52 * 2 powi (e - 52)" by (rule powi2_split)
    then have p: "(2 :: rat) powi e = 2 ^ 52 * 2 powi (e - 52)" by simp
    have "x \<le> - (2 powi e)" using E(1) neg eE by simp
    then have "x / 2 powi (e - 52) \<le> of_int (- (2 ^ 52))"
      unfolding p using up by (simp add: pos_divide_le_eq)
    then have "round_half_even (x / 2 powi (e - 52)) \<le> - (2 ^ 52)"
      by (rule round_half_even_le_int)
    then have "(of_int (round_half_even (x / 2 powi (e - 52))) :: rat) \<le> of_int (- (2 ^ 52))"
      by (simp only: of_int_le_iff)
    then have "fl x \<le> of_int (- (2 ^ 52)) * 2 powi (e - 52)"
      unfolding fl_def u by (rule mult_right_mono) simp
    also have "\<dots> = - (2 powi e)" unfolding p by simp
    also have "\<dots> < c" using c by (simp add: abs_less_iff)
    finally show ?thesis by simp
  qed
qed

lemma fl_ge:
  assumes "c \<le> x" "finite_double c"
  shows "c \<le> fl x"
proof -
  have "fl (- x) \<le> - c" by (rule fl_le) (use assms finite_double_minus in simp_all)
  then show ?thesis by (simp add: fl_minus)
qed

lemma fl_id: "finite_double c \<Longrightarrow> fl c = c"
  using fl_le[of c c] fl_ge[of c c] by simp

lemma fl_fl: "fl (fl x) = fl x"
  by (rule fl_id[OF finite_double_fl])

lemma fl_nonneg: "0 \<le> x \<Longrightarrow> 0 \<le> fl x"
  by (rule fl_ge[OF _ finite_double_zero])

lemma round_half_even_below:
  assumes "s < of_int j + 1 / 2"
  shows "round_half_even s \<le> j"
proof (cases "s \<le> of_int j")
  case True
  then show ?thesis by (rule round_half_even_le_int)
next
  case False
  then have "\<bar>s - of_int j\<bar> < 1 / 2" using assms by simp
  then show ?thesis using round_half_even_unique by simp
qed

lemma fl_evalI:
  assumes "2 powi e \<le> \<bar>x\<bar>" "\<bar>x\<bar> < 2 powi (e + 1)" "- 1022 \<le> e"
    and "round_half_even (x / 2 powi (e - 52)) = m"
    and "b = of_int m * 2 powi (e - 52)"
  shows "fl x = b"
proof -
  have "ulp x = 2 powi (e - 52)" using ulp_eq[OF assms(1,2)] assms(3) by (simp add: max_def)
  then show ?thesis unfolding fl_def assms(5) using assms(4) by simp
qed

lemma floor_rat_numeral: "\<lfloor>(numeral a :: rat) / numeral b\<rfloor> = numeral a div numeral b"
  using floor_divide_of_int_eq[of "numeral a" "numeral b", where ?'a = rat] by simp

subsection \<open>the two roundings to decimal places\<close>

lemma py_round_zero: "py_round 0 n = 0"
  by (simp add: py_round_def round_half_even_def fl_zero)

lemma py_round_lower:
  assumes "0 \<le> x"
  shows "0 \<le> py_round x n"
proof -
  have "of_int 0 \<le> x * 10 ^ n" using assms by simp
  then have "0 \<le> round_half_even (x * 10 ^ n)" by (rule round_half_even_ge_int)
  then have "0 \<le> (of_int (round_half_even (x * 10 ^ n)) :: rat) / 10 ^ n" by simp
  then show ?thesis unfolding py_round_def by (rule fl_nonneg)
qed

lemma py_round_upper:
  assumes "x * 10 ^ n < 10 ^ n + 1 / 2"
  shows "py_round x n \<le> 1"
proof -
  have "x * 10 ^ n < of_int (10 ^ n) + 1 / 2" using assms by simp
  then have "round_half_even (x * 10 ^ n) \<le> 10 ^ n" by (rule round_half_even_below)
  then have "(of_int (round_half_even (x * 10 ^ n)) :: rat) \<le> of_int (10 ^ n)"
    by (simp only: of_int_le_iff)
  then have "(of_int (round_half_even (x * 10 ^ n)) :: rat) / 10 ^ n \<le> 1"
    by (simp add: divide_le_eq)
  then show ?thesis unfolding py_round_def
    by (rule fl_le) (rule finite_double_of_int[of 1, simplified])
qed

subsection \<open>unique\<close>

lemma set_unique_from: "set (unique_from seen xs) = set xs - set seen"
  by (induction xs arbitrary: seen) auto

lemma distinct_unique_from: "distinct (unique_from seen xs)"
  by (induction xs arbitrary: seen) (auto simp add: set_unique_from)

lemma set_unique: "set (unique xs) = set xs"
  by (simp add: unique_def set_unique_from)

lemma distinct_unique: "distinct (unique xs)"
  by (simp add: unique_def distinct_unique_from)

lemma unique_Nil_iff: "unique xs = [] \<longleftrightarrow> xs = []"
  by (metis set_unique set_empty)

lemma length_unique: "length (unique xs) = card (set xs)"
  by (metis distinct_card distinct_unique set_unique)

subsection \<open>the first row\<close>

lemma iloc0_filter:
  "iloc0 (filter P rows) = (case find P rows of None \<Rightarrow> Inl IndexError | Some r \<Rightarrow> Inr r)"
  by (induction rows) (simp_all add: iloc0_def)

lemma find_Some_in: "find P rows = Some r \<Longrightarrow> r \<in> set rows \<and> P r"
  by (induction rows) (auto split: if_splits)

lemma find_in_set: "x \<in> set rows \<Longrightarrow> P x \<Longrightarrow> \<exists>r. find P rows = Some r"
  by (induction rows) auto

subsection \<open>encoding\<close>

lemma transform_error: "transform classes v = Inl e \<Longrightarrow> e = ValueError"
  by (auto simp add: transform_def split: option.splits)

lemma index_of_None: "index_of v cs = None \<longleftrightarrow> v \<notin> set cs"
  by (induction cs) auto


lemma transform_seen: "v \<in> set classes \<Longrightarrow> \<exists>i. transform classes v = Inr i"
  using index_of_None[of v classes] by (cases "index_of v classes") (auto simp add: transform_def)

lemma map_fst_assign: "k \<in> fst ` set frame \<Longrightarrow> map fst (assign k v frame) = map fst frame"
  by (induction frame) force+


lemma apply_encoding_total:
  "\<exists>frame'. apply_encoding s encoders frame = Inr frame' \<and> map fst frame' = map fst frame"
proof (induction encoders arbitrary: frame)
  case Nil
  show ?case by simp
next
  case (Cons enc encoders)
  obtain feature classes where enc: "enc = (feature, classes)" by (cases enc)
  show ?case
  proof (cases "map_of frame feature")
    case None
    then show ?thesis using Cons.IH[of frame] by (simp add: enc)
  next
    case (Some c)
    then have k: "feature \<in> fst ` set frame" by (metis domI dom_map_of_conv_image_fst)
    show ?thesis
    proof (cases "transform classes (astype_str s c)")
      case (Inl e)
      then have e: "e = ValueError" by (rule transform_error)
      show ?thesis
        using Cons.IH[of "assign feature (IntV 0) frame"] Some Inl e k
        by (simp add: enc map_fst_assign)
    next
      case (Inr code)
      show ?thesis
        using Cons.IH[of "assign feature (IntV code) frame"] Some Inr k
        by (simp add: enc map_fst_assign)
    qed
  qed
qed

lemma select_columns_ok:
  "set names \<subseteq> fst ` set frame \<Longrightarrow> \<exists>X. select_columns frame names = Inr X"
proof (induction names)
  case Nil
  show ?case by simp
next
  case (Cons n names)
  then have "n \<in> fst ` set frame" by simp
  then obtain c where "map_of frame n = Some c"
    by (metis domD dom_map_of_conv_image_fst)
  moreover obtain X where "select_columns frame names = Inr X" using Cons by auto
  ultimately show ?case by simp
qed

lemma map_fst_make_input_data:
  "map fst (make_input_data m pt u q b row) = input_columns"
  by (simp add: make_input_data_def input_columns_def)


subsection \<open>the probability\<close>

lemma np_where_empty: "name \<notin> set classes \<Longrightarrow> np_where classes name = []"
  by (auto simp add: np_where_def filter_empty_conv)

lemma np_where_bound: "i \<in> set (np_where classes name) \<Longrightarrow> i < length classes"
  by (simp add: np_where_def)


lemma supplier_probability_ok:
  assumes "length classes \<le> length ps"
  shows "\<exists>p. supplier_probability classes ps name = Inr p"
proof (cases "np_where classes name")
  case Nil
  then show ?thesis by (simp add: supplier_probability_def)
next
  case (Cons i js)
  then have "i \<in> set (np_where classes name)" by simp
  then have "i < length ps" using np_where_bound assms by fastforce
  then show ?thesis using Cons by (simp add: supplier_probability_def getitem_def)
qed

lemma supplier_probability_range:
  assumes "supplier_probability classes ps name = Inr p" "\<forall>x \<in> set ps. 0 \<le> x \<and> x \<le> 1"
  shows "0 \<le> p \<and> p \<le> 1"
  using assms
  by (auto simp add: supplier_probability_def getitem_def Let_def split: if_splits)

subsection \<open>one supplier\<close>

lemma recommendation_for_Inr:
  assumes "recommendation_for s m pt u q b rows name = Inr r"
  obtains row input X ps p where
    "first_row rows name = Some row"
    "apply_encoding s (label_encoders s) (make_input_data m pt u q b row) = Inr input"
    "select_columns input (feature_names s) = Inr X"
    "model s X = Inr ps"
    "supplier_probability (target_encoder s) ps name = Inr p"
    "r = make_recommendation name row q b p"
  using assms
  by (auto simp add: recommendation_for_def iloc0_filter first_row_def
      split: sum.splits option.splits)

lemma recommendation_for_ok:
  assumes "schema_ok s" "classifier_ok s" "first_row rows name = Some row"
  shows "\<exists>ps p. supplier_probability (target_encoder s) ps name = Inr p
           \<and> recommendation_for s m pt u q b rows name = Inr (make_recommendation name row q b p)"
proof -
  obtain input where i: "apply_encoding s (label_encoders s) (make_input_data m pt u q b row) = Inr input"
    and c: "map fst input = map fst (make_input_data m pt u q b row)"
    using apply_encoding_total by blast
  have "fst ` set input = set input_columns"
    using c map_fst_make_input_data by (metis set_map)
  then have "set (feature_names s) \<subseteq> fst ` set input" using assms(1) by (simp add: schema_ok_def)
  then obtain X where x: "select_columns input (feature_names s) = Inr X"
    using select_columns_ok by blast
  obtain ps where ps: "model s X = Inr ps" "length (target_encoder s) \<le> length ps"
    using assms(2) unfolding classifier_ok_def by blast
  obtain p where p: "supplier_probability (target_encoder s) ps name = Inr p"
    using supplier_probability_ok[OF ps(2)] by blast
  have "recommendation_for s m pt u q b rows name = Inr (make_recommendation name row q b p)"
    using assms(3) i x ps(1) p
    by (simp add: recommendation_for_def iloc0_filter first_row_def)
  with p show ?thesis by blast
qed


subsection \<open>the sort\<close>

lemma set_list_sort: "set (list_sort key rev_flag xs) = set xs"
  by (simp add: list_sort_def)

lemma length_list_sort: "length (list_sort key rev_flag xs) = length xs"
  by (simp add: list_sort_def)

lemma list_sort_descending:
  "sorted_wrt (\<lambda>a b. key a \<ge> key b) (list_sort key True xs)"
proof -
  have "sorted (map key (sort_key key (rev xs)))" by (rule sorted_sort_key)
  then have "sorted_wrt (\<lambda>a b. key a \<le> key b) (sort_key key (rev xs))"
    by (simp add: sorted_map)
  then show ?thesis by (simp add: list_sort_def sorted_wrt_rev)
qed

lemma list_sort_stable:
  "filter (\<lambda>x. key x = k) (list_sort key True xs) = filter (\<lambda>x. key x = k) xs"
  by (simp add: list_sort_def rev_filter[symmetric] sort_key_stable)

lemma distinct_map_list_sort:
  "distinct (map f (list_sort key rev_flag xs)) = distinct (map f xs)"
  by (simp add: list_sort_def distinct_map)


subsection \<open>the loop\<close>

lemma recommendations_loop_Cons:
  "recommendations_loop s m pt u q b rows (name # names) = Inr rs' \<longleftrightarrow>
     (\<exists>r rs. recommendation_for s m pt u q b rows name = Inr r
        \<and> recommendations_loop s m pt u q b rows names = Inr rs \<and> rs' = r # rs)"
  by (cases "recommendation_for s m pt u q b rows name";
      cases "recommendations_loop s m pt u q b rows names") auto

lemma recommendations_loop_Inr:
  "recommendations_loop s m pt u q b rows names = Inr rs \<Longrightarrow>
     list_all2 (\<lambda>name r. recommendation_for s m pt u q b rows name = Inr r) names rs"
proof (induction names arbitrary: rs)
  case Nil
  then show ?case by simp
next
  case (Cons name names)
  then obtain r rs0 where
    "recommendation_for s m pt u q b rows name = Inr r"
    "recommendations_loop s m pt u q b rows names = Inr rs0" "rs = r # rs0"
    unfolding recommendations_loop_Cons by blast
  then show ?case using Cons.IH[of rs0] by simp
qed

lemma recommendations_loop_ok:
  assumes "\<And>name. name \<in> set names \<Longrightarrow> \<exists>r. recommendation_for s m pt u q b rows name = Inr r"
  shows "\<exists>rs. recommendations_loop s m pt u q b rows names = Inr rs"
  using assms
proof (induction names)
  case Nil
  show ?case by simp
next
  case (Cons name names)
  obtain r where r: "recommendation_for s m pt u q b rows name = Inr r"
    using Cons.prems[of name] by auto
  obtain rs where rs: "recommendations_loop s m pt u q b rows names = Inr rs"
    using Cons.IH Cons.prems by auto
  show ?case unfolding recommendations_loop_Cons using r rs by blast
qed

lemma recommendation_for_name:
  assumes "recommendation_for s m pt u q b rows name = Inr r"
  shows "supplier_name r = name"
proof -
  from assms obtain row p where "r = make_recommendation name row q b p"
    by (rule recommendation_for_Inr)
  then show ?thesis by (simp add: make_recommendation_def Let_def)
qed

lemma recommendations_loop_names:
  "recommendations_loop s m pt u q b rows names = Inr rs \<Longrightarrow> map supplier_name rs = names"
proof (induction names arbitrary: rs)
  case Nil
  then show ?case by simp
next
  case (Cons name names)
  then obtain r rs0 where
    "recommendation_for s m pt u q b rows name = Inr r"
    "recommendations_loop s m pt u q b rows names = Inr rs0" "rs = r # rs0"
    unfolding recommendations_loop_Cons by blast
  then show ?case using Cons.IH[of rs0] recommendation_for_name[of s m pt u q b rows name r] by simp
qed

lemma recommendations_loop_member:
  "recommendations_loop s m pt u q b rows names = Inr rs \<Longrightarrow> r \<in> set rs \<Longrightarrow>
     recommendation_for s m pt u q b rows (supplier_name r) = Inr r"
proof (induction names arbitrary: rs)
  case Nil
  then show ?case by simp
next
  case (Cons name names)
  then obtain r0 rs0 where h:
    "recommendation_for s m pt u q b rows name = Inr r0"
    "recommendations_loop s m pt u q b rows names = Inr rs0" "rs = r0 # rs0"
    unfolding recommendations_loop_Cons by blast
  show ?case
  proof (cases "r = r0")
    case True
    then show ?thesis using h(1) recommendation_for_name[OF h(1)] by simp
  next
    case False
    then have "r \<in> set rs0" using Cons.prems(2) h(3) by simp
    then show ?thesis using Cons.IH[OF h(2)] by simp
  qed
qed

subsection \<open>the whole call\<close>

lemma recommend_suppliers_Result:
  assumes "recommend_suppliers s m pt u q b = Inr (Result env)"
  obtains rs where
    "u \<in> set valid_urgencies" "rows_of s pt \<noteq> []"
    "recommendations_loop s m pt u q b (rows_of s pt)
       (unique (map df_supplier_name (rows_of s pt))) = Inr rs"
    "env = \<lparr> res_product_type = pt, res_urgency = u, res_quantity = q, res_budget = b,
             recommendations = list_sort final_score True rs,
             total_options = int (length rs) \<rparr>"
  using assms
  by (auto simp add: recommend_suppliers_def rows_of_def Let_def length_list_sort
      split: if_splits sum.splits)

lemma recommend_suppliers_member:
  assumes "recommend_suppliers s m pt u q b = Inr (Result env)" "r \<in> set (recommendations env)"
  shows "recommendation_for s m pt u q b (rows_of s pt) (supplier_name r) = Inr r"
proof -
  from assms(1) obtain rs where
    l: "recommendations_loop s m pt u q b (rows_of s pt)
          (unique (map df_supplier_name (rows_of s pt))) = Inr rs"
    and e: "env = \<lparr> res_product_type = pt, res_urgency = u, res_quantity = q, res_budget = b,
             recommendations = list_sort final_score True rs,
             total_options = int (length rs) \<rparr>"
    by (rule recommend_suppliers_Result)
  have "r \<in> set rs" using assms(2) e by (simp add: set_list_sort)
  then show ?thesis using recommendations_loop_member[OF l] by simp
qed

lemma first_row_in: "first_row rows name = Some row \<Longrightarrow> row \<in> set rows \<and> df_supplier_name row = name"
  unfolding first_row_def by (drule find_Some_in) simp

lemma rows_of_subset: "set (rows_of s pt) \<subseteq> set (df s)"
  by (auto simp add: rows_of_def)

lemma recommendation_for_first_row:
  "first_row rows name = first_row rows' name \<Longrightarrow>
     recommendation_for s m pt u q b rows name = recommendation_for s m pt u q b rows' name"
  by (simp add: recommendation_for_def iloc0_filter first_row_def)

lemma first_row_single: "df_supplier_name row = name \<Longrightarrow> first_row [row] name = Some row"
  by (simp add: first_row_def)

section \<open>The example, evaluated\<close>

lemma recommendation_for_const_model:
  assumes "schema_ok s" "\<And>X. model s X = Inr ps" "first_row rows name = Some row"
    "supplier_probability (target_encoder s) ps name = Inr p"
  shows "recommendation_for s m pt u q b rows name = Inr (make_recommendation name row q b p)"
proof -
  obtain input where i: "apply_encoding s (label_encoders s) (make_input_data m pt u q b row) = Inr input"
    and c: "map fst input = map fst (make_input_data m pt u q b row)"
    using apply_encoding_total by blast
  have "fst ` set input = set input_columns"
    using c map_fst_make_input_data by (metis set_map)
  then have "set (feature_names s) \<subseteq> fst ` set input" using assms(1) by (simp add: schema_ok_def)
  then obtain X where x: "select_columns input (feature_names s) = Inr X"
    using select_columns_ok by blast
  show ?thesis
    using assms(2)[of X] assms(3,4) i x
    by (simp add: recommendation_for_def iloc0_filter first_row_def)
qed

lemma demo_schema_ok: "schema_ok demo_system"
  by (simp add: schema_ok_def demo_system_def input_columns_def)

lemma demo_classifier_ok: "classifier_ok demo_system"
  by (simp add: classifier_ok_def demo_system_def)

lemma demo_rows:
  "rows_of demo_system ''valve_butterfly'' = [demo_alfa, demo_beta, demo_alfa_late, demo_gamma]"
  by (simp add: rows_of_def demo_system_def demo_alfa_def demo_beta_def demo_alfa_late_def
      demo_gamma_def demo_roll_def)

lemma demo_names:
  "unique (map df_supplier_name [demo_alfa, demo_beta, demo_alfa_late, demo_gamma])
     = [''Alfa'', ''Beta'', ''Gamma'']"
  by (simp add: unique_def demo_alfa_def demo_beta_def demo_alfa_late_def demo_gamma_def)

lemma demo_first_rows:
  "first_row [demo_alfa, demo_beta, demo_alfa_late, demo_gamma] ''Alfa'' = Some demo_alfa"
  "first_row [demo_alfa, demo_beta, demo_alfa_late, demo_gamma] ''Beta'' = Some demo_beta"
  "first_row [demo_alfa, demo_beta, demo_alfa_late, demo_gamma] ''Gamma'' = Some demo_gamma"
  by (simp_all add: first_row_def demo_alfa_def demo_beta_def demo_alfa_late_def demo_gamma_def)

lemma demo_probabilities:
  "supplier_probability (target_encoder demo_system) [fl 0.0014, fl 0.4995] ''Alfa''
     = Inr (fl 0.0014)"
  "supplier_probability (target_encoder demo_system) [fl 0.0014, fl 0.4995] ''Beta''
     = Inr (fl 0.4995)"
  "supplier_probability (target_encoder demo_system) [fl 0.0014, fl 0.4995] ''Gamma'' = Inr 0"
  by (simp_all add: supplier_probability_def np_where_def getitem_def demo_system_def upt_rec)

lemma demo_model: "model demo_system X = Inr [fl 0.0014, fl 0.4995]"
  by (simp add: demo_system_def)

lemma demo_for:
  "recommendation_for demo_system m ''valve_butterfly'' u q b
      [demo_alfa, demo_beta, demo_alfa_late, demo_gamma] ''Alfa''
     = Inr (make_recommendation ''Alfa'' demo_alfa q b (fl 0.0014))"
  "recommendation_for demo_system m ''valve_butterfly'' u q b
      [demo_alfa, demo_beta, demo_alfa_late, demo_gamma] ''Beta''
     = Inr (make_recommendation ''Beta'' demo_beta q b (fl 0.4995))"
  "recommendation_for demo_system m ''valve_butterfly'' u q b
      [demo_alfa, demo_beta, demo_alfa_late, demo_gamma] ''Gamma''
     = Inr (make_recommendation ''Gamma'' demo_gamma q b 0)"
  by (rule recommendation_for_const_model[OF demo_schema_ok demo_model demo_first_rows(1)
          demo_probabilities(1)],
      rule recommendation_for_const_model[OF demo_schema_ok demo_model demo_first_rows(2)
          demo_probabilities(2)],
      rule recommendation_for_const_model[OF demo_schema_ok demo_model demo_first_rows(3)
          demo_probabilities(3)])

lemma demo_loop:
  "recommendations_loop demo_system m ''valve_butterfly'' u q b
      [demo_alfa, demo_beta, demo_alfa_late, demo_gamma] [''Alfa'', ''Beta'', ''Gamma'']
     = Inr [make_recommendation ''Alfa'' demo_alfa q b (fl 0.0014),
            make_recommendation ''Beta'' demo_beta q b (fl 0.4995),
            make_recommendation ''Gamma'' demo_gamma q b 0]"
  by (simp add: demo_for)

text \<open>The doubles that the example meets, each checked against its binade.\<close>

lemma demo_fl_1: "fl (4153837486827862419877810830259 / 10384593717069655257060992658440192) = 7378697629483821 / 18446744073709551616"
  by (rule fl_evalI[where e = "- 12" and m = 7378697629483821])
     (simp_all add: round_half_even_def floor_rat_numeral)

lemma demo_fl_2: "fl (23261489926236028830739800270171 / 41538374868278621028243970633760768) = 5165088340638675 / 9223372036854775808"
  by (rule fl_evalI[where e = "- 11" and m = 5165088340638675])
     (simp_all add: round_half_even_def floor_rat_numeral)

lemma demo_fl_3: "fl (1 / 1000) = 1152921504606847 / 1152921504606846976"
  by (rule fl_evalI[where e = "- 10" and m = 4611686018427388])
     (simp_all add: round_half_even_def floor_rat_numeral)

lemma demo_fl_4: "fl (7 / 5000) = 6456360425798343 / 4611686018427387904"
  by (rule fl_evalI[where e = "- 10" and m = 6456360425798343])
     (simp_all add: round_half_even_def floor_rat_numeral)

lemma demo_fl_5: "fl (12980742146337070512478121581609 / 324518553658426726783156020576256) = 1441151880758559 / 36028797018963968"
  by (rule fl_evalI[where e = "- 5" and m = 5764607523034236])
     (simp_all add: round_half_even_def floor_rat_numeral)

lemma demo_fl_6: "fl (1 / 20) = 3602879701896397 / 72057594037927936"
  by (rule fl_evalI[where e = "- 5" and m = 7205759403792794])
     (simp_all add: round_half_even_def floor_rat_numeral)

lemma demo_fl_7: "fl (3602879701896397 / 72057594037927936) = 3602879701896397 / 72057594037927936"
  by (rule fl_evalI[where e = "- 5" and m = 7205759403792794])
     (simp_all add: round_half_even_def floor_rat_numeral)

lemma demo_fl_8: "fl (11358149378044935347338468172759 / 162259276829213363391578010288128) = 5044031582654955 / 72057594037927936"
  by (rule fl_evalI[where e = "- 4" and m = 5044031582654955])
     (simp_all add: round_half_even_def floor_rat_numeral)

lemma demo_fl_9: "fl (1 / 10) = 3602879701896397 / 36028797018963968"
  by (rule fl_evalI[where e = "- 4" and m = 7205759403792794])
     (simp_all add: round_half_even_def floor_rat_numeral)

lemma demo_fl_10: "fl (3602879701896397 / 36028797018963968) = 3602879701896397 / 36028797018963968"
  by (rule fl_evalI[where e = "- 4" and m = 7205759403792794])
     (simp_all add: round_half_even_def floor_rat_numeral)

lemma demo_fl_11: "fl (5404319552844595 / 36028797018963968) = 5404319552844595 / 36028797018963968"
  by (rule fl_evalI[where e = "- 3" and m = 5404319552844595])
     (simp_all add: round_half_even_def floor_rat_numeral)

lemma demo_fl_12: "fl (16193475827555494536574933434735 / 81129638414606681695789005144064) = 898918485623151 / 4503599627370496"
  by (rule fl_evalI[where e = "- 3" and m = 7191347884985208])
     (simp_all add: round_half_even_def floor_rat_numeral)

lemma demo_fl_13: "fl (1 / 5) = 3602879701896397 / 18014398509481984"
  by (rule fl_evalI[where e = "- 3" and m = 7205759403792794])
     (simp_all add: round_half_even_def floor_rat_numeral)

lemma demo_fl_14: "fl (3602879701896397 / 18014398509481984) = 3602879701896397 / 18014398509481984"
  by (rule fl_evalI[where e = "- 3" and m = 7205759403792794])
     (simp_all add: round_half_even_def floor_rat_numeral)

lemma demo_fl_15: "fl (3696727512371394349 / 18446744073709551616) = 1805042730650095 / 9007199254740992"
  by (rule fl_evalI[where e = "- 3" and m = 7220170922600380])
     (simp_all add: round_half_even_def floor_rat_numeral)

lemma demo_fl_16: "fl (1849839495711593939 / 9223372036854775808) = 3612967765061707 / 18014398509481984"
  by (rule fl_evalI[where e = "- 3" and m = 7225935530123414])
     (simp_all add: round_half_even_def floor_rat_numeral)

lemma demo_fl_17: "fl (1 / 4) = 1 / 4"
  by (rule fl_evalI[where e = "- 2" and m = 4503599627370496])
     (simp_all add: round_half_even_def floor_rat_numeral)

lemma demo_fl_18: "fl (23058430092136939 / 72057594037927936) = 5764607523034235 / 18014398509481984"
  by (rule fl_evalI[where e = "- 2" and m = 5764607523034235])
     (simp_all add: round_half_even_def floor_rat_numeral)

lemma demo_fl_19: "fl (12610078956637389 / 36028797018963968) = 3152519739159347 / 9007199254740992"
  by (rule fl_evalI[where e = "- 2" and m = 6305039478318694])
     (simp_all add: round_half_even_def floor_rat_numeral)

lemma demo_fl_20: "fl (9 / 25) = 3242591731706757 / 9007199254740992"
  by (rule fl_evalI[where e = "- 2" and m = 6485183463413514])
     (simp_all add: round_half_even_def floor_rat_numeral)

lemma demo_fl_21: "fl (12970366926827029 / 36028797018963968) = 3242591731706757 / 9007199254740992"
  by (rule fl_evalI[where e = "- 2" and m = 6485183463413514])
     (simp_all add: round_half_even_def floor_rat_numeral)

lemma demo_fl_22: "fl (7198553644389001 / 18014398509481984) = 7198553644389001 / 18014398509481984"
  by (rule fl_evalI[where e = "- 2" and m = 7198553644389001])
     (simp_all add: round_half_even_def floor_rat_numeral)

lemma demo_fl_23: "fl (2 / 5) = 3602879701896397 / 9007199254740992"
  by (rule fl_evalI[where e = "- 2" and m = 7205759403792794])
     (simp_all add: round_half_even_def floor_rat_numeral)

lemma demo_fl_24: "fl (3602879701896397 / 9007199254740992) = 3602879701896397 / 9007199254740992"
  by (rule fl_evalI[where e = "- 2" and m = 7205759403792794])
     (simp_all add: round_half_even_def floor_rat_numeral)

lemma demo_fl_25: "fl (7212965163196587 / 18014398509481984) = 7212965163196587 / 18014398509481984"
  by (rule fl_evalI[where e = "- 2" and m = 7212965163196587])
     (simp_all add: round_half_even_def floor_rat_numeral)

lemma demo_fl_26: "fl (901980933369763 / 2251799813685248) = 901980933369763 / 2251799813685248"
  by (rule fl_evalI[where e = "- 2" and m = 7215847466958104])
     (simp_all add: round_half_even_def floor_rat_numeral)

lemma demo_fl_27: "fl (30264189495929731 / 72057594037927936) = 7566047373982433 / 18014398509481984"
  by (rule fl_evalI[where e = "- 2" and m = 7566047373982433])
     (simp_all add: round_half_even_def floor_rat_numeral)

lemma demo_fl_28: "fl (9 / 20) = 8106479329266893 / 18014398509481984"
  by (rule fl_evalI[where e = "- 2" and m = 8106479329266893])
     (simp_all add: round_half_even_def floor_rat_numeral)

lemma demo_fl_29: "fl (16573246628723425 / 36028797018963968) = 517913957147607 / 1125899906842624"
  by (rule fl_evalI[where e = "- 2" and m = 8286623314361712])
     (simp_all add: round_half_even_def floor_rat_numeral)

lemma demo_fl_30: "fl (23 / 50) = 8286623314361713 / 18014398509481984"
  by (rule fl_evalI[where e = "- 2" and m = 8286623314361713])
     (simp_all add: round_half_even_def floor_rat_numeral)

lemma demo_fl_31: "fl (499 / 1000) = 4494592428115755 / 9007199254740992"
  by (rule fl_evalI[where e = "- 2" and m = 8989184856231510])
     (simp_all add: round_half_even_def floor_rat_numeral)

lemma demo_fl_32: "fl (999 / 2000) = 8998192055486251 / 18014398509481984"
  by (rule fl_evalI[where e = "- 2" and m = 8998192055486251])
     (simp_all add: round_half_even_def floor_rat_numeral)

lemma demo_fl_33: "fl (17999986990674399 / 36028797018963968) = 562499593458575 / 1125899906842624"
  by (rule fl_evalI[where e = "- 2" and m = 8999993495337200])
     (simp_all add: round_half_even_def floor_rat_numeral)

lemma demo_fl_34: "fl (1 / 2) = 1 / 2"
  by (rule fl_evalI[where e = "- 1" and m = 4503599627370496])
     (simp_all add: round_half_even_def floor_rat_numeral)

lemma demo_fl_35: "fl (18028810028289571 / 36028797018963968) = 4507202507072393 / 9007199254740992"
  by (rule fl_evalI[where e = "- 1" and m = 4507202507072393])
     (simp_all add: round_half_even_def floor_rat_numeral)

lemma demo_fl_36: "fl (18034574635812605 / 36028797018963968) = 4508643658953151 / 9007199254740992"
  by (rule fl_evalI[where e = "- 1" and m = 4508643658953151])
     (simp_all add: round_half_even_def floor_rat_numeral)

lemma demo_fl_37: "fl (11 / 20) = 2476979795053773 / 4503599627370496"
  by (rule fl_evalI[where e = "- 1" and m = 4953959590107546])
     (simp_all add: round_half_even_def floor_rat_numeral)

lemma demo_fl_38: "fl (39660499758475541 / 72057594037927936) = 4957562469809443 / 9007199254740992"
  by (rule fl_evalI[where e = "- 1" and m = 4957562469809443])
     (simp_all add: round_half_even_def floor_rat_numeral)

lemma demo_fl_39: "fl (39672028973521605 / 72057594037927936) = 4959003621690201 / 9007199254740992"
  by (rule fl_evalI[where e = "- 1" and m = 4959003621690201])
     (simp_all add: round_half_even_def floor_rat_numeral)

lemma demo_fl_40: "fl (551 / 1000) = 4962966789362287 / 9007199254740992"
  by (rule fl_evalI[where e = "- 1" and m = 4962966789362287])
     (simp_all add: round_half_even_def floor_rat_numeral)

lemma demo_fl_41: "fl (5400716673142699 / 9007199254740992) = 5400716673142699 / 9007199254740992"
  by (rule fl_evalI[where e = "- 1" and m = 5400716673142699])
     (simp_all add: round_half_even_def floor_rat_numeral)

lemma demo_fl_42: "fl (21602866692570797 / 36028797018963968) = 5400716673142699 / 9007199254740992"
  by (rule fl_evalI[where e = "- 1" and m = 5400716673142699])
     (simp_all add: round_half_even_def floor_rat_numeral)

lemma demo_fl_43: "fl (3 / 5) = 5404319552844595 / 9007199254740992"
  by (rule fl_evalI[where e = "- 1" and m = 5404319552844595])
     (simp_all add: round_half_even_def floor_rat_numeral)

lemma demo_fl_44: "fl (10808639105689191 / 18014398509481984) = 1351079888211149 / 2251799813685248"
  by (rule fl_evalI[where e = "- 1" and m = 5404319552844596])
     (simp_all add: round_half_even_def floor_rat_numeral)

lemma demo_fl_45: "fl (46808613087037989 / 72057594037927936) = 5851076635879749 / 9007199254740992"
  by (rule fl_evalI[where e = "- 1" and m = 5851076635879749])
     (simp_all add: round_half_even_def floor_rat_numeral)

lemma demo_fl_46: "fl (13 / 20) = 5854679515581645 / 9007199254740992"
  by (rule fl_evalI[where e = "- 1" and m = 5854679515581645])
     (simp_all add: round_half_even_def floor_rat_numeral)

lemma demo_fl_47: "fl (25205746394467193 / 36028797018963968) = 3150718299308399 / 4503599627370496"
  by (rule fl_evalI[where e = "- 1" and m = 6301436598616798])
     (simp_all add: round_half_even_def floor_rat_numeral)

lemma demo_fl_48: "fl (7 / 10) = 3152519739159347 / 4503599627370496"
  by (rule fl_evalI[where e = "- 1" and m = 6305039478318694])
     (simp_all add: round_half_even_def floor_rat_numeral)

lemma demo_fl_49: "fl (25220157913274781 / 36028797018963968) = 6305039478318695 / 9007199254740992"
  by (rule fl_evalI[where e = "- 1" and m = 6305039478318695])
     (simp_all add: round_half_even_def floor_rat_numeral)

lemma demo_fl_50: "fl (54014372490830781 / 72057594037927936) = 843974570169231 / 1125899906842624"
  by (rule fl_evalI[where e = "- 1" and m = 6751796561353848])
     (simp_all add: round_half_even_def floor_rat_numeral)

lemma demo_fl_51: "fl (3 / 4) = 3 / 4"
  by (rule fl_evalI[where e = "- 1" and m = 6755399441055744])
     (simp_all add: round_half_even_def floor_rat_numeral)

lemma demo_fl_52: "fl (54043195528445957 / 72057594037927936) = 6755399441055745 / 9007199254740992"
  by (rule fl_evalI[where e = "- 1" and m = 6755399441055745])
     (simp_all add: round_half_even_def floor_rat_numeral)

lemma demo_fl_53: "fl (4 / 5) = 3602879701896397 / 4503599627370496"
  by (rule fl_evalI[where e = "- 1" and m = 7205759403792794])
     (simp_all add: round_half_even_def floor_rat_numeral)

lemma demo_fl_54: "fl (1) = 1"
  by (rule fl_evalI[where e = "0" and m = 4503599627370496])
     (simp_all add: round_half_even_def floor_rat_numeral)

lemma demo_fl_55: "fl (807045053224792875 / 576460752303423488) = 3152519739159347 / 2251799813685248"
  by (rule fl_evalI[where e = "0" and m = 6305039478318694])
     (simp_all add: round_half_even_def floor_rat_numeral)

lemma demo_fl_56: "fl (3) = 3"
  by (rule fl_evalI[where e = "1" and m = 6755399441055744])
     (simp_all add: round_half_even_def floor_rat_numeral)

lemma demo_fl_57: "fl (4) = 4"
  by (rule fl_evalI[where e = "2" and m = 4503599627370496])
     (simp_all add: round_half_even_def floor_rat_numeral)

lemma demo_fl_58: "fl (5) = 5"
  by (rule fl_evalI[where e = "2" and m = 5629499534213120])
     (simp_all add: round_half_even_def floor_rat_numeral)

lemma demo_fl_59: "fl (50) = 50"
  by (rule fl_evalI[where e = "5" and m = 7036874417766400])
     (simp_all add: round_half_even_def floor_rat_numeral)

lemma demo_fl_60: "fl (100) = 100"
  by (rule fl_evalI[where e = "6" and m = 7036874417766400])
     (simp_all add: round_half_even_def floor_rat_numeral)

lemma demo_fl_61: "fl (25001 / 250) = 7037155892743111 / 70368744177664"
  by (rule fl_evalI[where e = "6" and m = 7037155892743111])
     (simp_all add: round_half_even_def floor_rat_numeral)

lemma demo_fl_62: "fl (7037155892743111 / 70368744177664) = 7037155892743111 / 70368744177664"
  by (rule fl_evalI[where e = "6" and m = 7037155892743111])
     (simp_all add: round_half_even_def floor_rat_numeral)

lemma demo_fl_63: "fl (300) = 300"
  by (rule fl_evalI[where e = "8" and m = 5277655813324800])
     (simp_all add: round_half_even_def floor_rat_numeral)

lemma demo_fl_64: "fl (350) = 350"
  by (rule fl_evalI[where e = "8" and m = 6157265115545600])
     (simp_all add: round_half_even_def floor_rat_numeral)

lemma demo_fl_65: "fl (64739244643450875 / 140737488355328) = 8092405580431359 / 17592186044416"
  by (rule fl_evalI[where e = "8" and m = 8092405580431359])
     (simp_all add: round_half_even_def floor_rat_numeral)

lemma demo_fl_66: "fl (1124774006935781375 / 2251799813685248) = 999 / 2"
  by (rule fl_evalI[where e = "8" and m = 8787296929185792])
     (simp_all add: round_half_even_def floor_rat_numeral)

lemma demo_fl_67: "fl (619695308726180375 / 1125899906842624) = 1210342399855821 / 2199023255552"
  by (rule fl_evalI[where e = "9" and m = 4841369599423284])
     (simp_all add: round_half_even_def floor_rat_numeral)

lemma demo_fl_68: "fl (844424930131968125 / 1125899906842624) = 6597069766656001 / 8796093022208"
  by (rule fl_evalI[where e = "9" and m = 6597069766656001])
     (simp_all add: round_half_even_def floor_rat_numeral)

lemma demo_fl_69: "fl (10000) = 10000"
  by (rule fl_evalI[where e = "13" and m = 5497558138880000])
     (simp_all add: round_half_even_def floor_rat_numeral)

lemma demo_fl_70: "fl (175928897318577775 / 17592186044416) = 5497778041205555 / 549755813888"
  by (rule fl_evalI[where e = "13" and m = 5497778041205555])
     (simp_all add: round_half_even_def floor_rat_numeral)

lemma demo_fl_71: "fl (35000) = 35000"
  by (rule fl_evalI[where e = "15" and m = 4810363371520000])
     (simp_all add: round_half_even_def floor_rat_numeral)

lemmas demo_fl = demo_fl_1 demo_fl_2 demo_fl_3 demo_fl_4 demo_fl_5 demo_fl_6 demo_fl_7
  demo_fl_8 demo_fl_9 demo_fl_10 demo_fl_11 demo_fl_12 demo_fl_13 demo_fl_14 demo_fl_15
  demo_fl_16 demo_fl_17 demo_fl_18 demo_fl_19 demo_fl_20 demo_fl_21 demo_fl_22 demo_fl_23
  demo_fl_24 demo_fl_25 demo_fl_26 demo_fl_27 demo_fl_28 demo_fl_29 demo_fl_30 demo_fl_31
  demo_fl_32 demo_fl_33 demo_fl_34 demo_fl_35 demo_fl_36 demo_fl_37 demo_fl_38 demo_fl_39
  demo_fl_40 demo_fl_41 demo_fl_42 demo_fl_43 demo_fl_44 demo_fl_45 demo_fl_46 demo_fl_47
  demo_fl_48 demo_fl_49 demo_fl_50 demo_fl_51 demo_fl_52 demo_fl_53 demo_fl_54 demo_fl_55
  demo_fl_56 demo_fl_57 demo_fl_58 demo_fl_59 demo_fl_60 demo_fl_61 demo_fl_62 demo_fl_63
  demo_fl_64 demo_fl_65 demo_fl_66 demo_fl_67 demo_fl_68 demo_fl_69 demo_fl_70 demo_fl_71

lemmas float_eval = fadd_def fmul_def fdiv_def float_of_int_def py_round_def np_round_def
  round_half_even_def floor_rat_numeral fl_zero Let_def demo_fl

lemma demo_entries:
  "make_recommendation ''Alfa'' demo_alfa 1 600 (fl 0.0014) = demo_entry_alfa"
  "make_recommendation ''Beta'' demo_beta 1 600 (fl 0.4995) = demo_entry_beta"
  "make_recommendation ''Gamma'' demo_gamma 1 600 0 = demo_entry_gamma"
  by (simp_all add: make_recommendation_def demo_alfa_def demo_beta_def demo_gamma_def
      demo_entry_alfa_def demo_entry_beta_def demo_entry_gamma_def float_eval)

lemma demo_sorted:
  "list_sort final_score True [demo_entry_alfa, demo_entry_beta, demo_entry_gamma]
     = [demo_entry_beta, demo_entry_alfa, demo_entry_gamma]"
  by (simp add: list_sort_def sort_key_def insort_key.simps
      demo_entry_alfa_def demo_entry_beta_def demo_entry_gamma_def demo_fl)

lemma demo_run:
  "recommend_suppliers demo_system 11 ''valve_butterfly'' ''Low'' 1 600 =
     Inr (Result demo_envelope)"
proof -
  have r: "filter (\<lambda>row. df_product_type row = ''valve_butterfly'') (df demo_system)
             = [demo_alfa, demo_beta, demo_alfa_late, demo_gamma]"
    using demo_rows by (simp add: rows_of_def)
  show ?thesis
    unfolding recommend_suppliers_def r Let_def demo_names demo_loop demo_entries
    by (simp add: valid_urgencies_def demo_sorted demo_envelope_def)
qed

lemma demo_entries_100:
  "make_recommendation ''Alfa'' demo_alfa 1 100 (fl 0.0014) = demo_entry_alfa"
  "make_recommendation ''Beta'' demo_beta 1 100 (fl 0.4995) = demo_entry_beta_100"
  "make_recommendation ''Gamma'' demo_gamma 1 100 0 = demo_entry_gamma_100"
  by (simp_all add: make_recommendation_def demo_alfa_def demo_beta_def demo_gamma_def
      demo_entry_alfa_def demo_entry_beta_100_def demo_entry_gamma_100_def float_eval)

lemma demo_sorted_100:
  "list_sort final_score True [demo_entry_alfa, demo_entry_beta_100, demo_entry_gamma_100]
     = [demo_entry_beta_100, demo_entry_alfa, demo_entry_gamma_100]"
  by (simp add: list_sort_def sort_key_def insort_key.simps
      demo_entry_alfa_def demo_entry_beta_100_def demo_entry_gamma_100_def demo_fl)

lemma demo_run_100:
  "recommend_suppliers demo_system 11 ''valve_butterfly'' ''Low'' 1 100 =
     Inr (Result demo_envelope_100)"
proof -
  have r: "filter (\<lambda>row. df_product_type row = ''valve_butterfly'') (df demo_system)
             = [demo_alfa, demo_beta, demo_alfa_late, demo_gamma]"
    using demo_rows by (simp add: rows_of_def)
  show ?thesis
    unfolding recommend_suppliers_def r Let_def demo_names demo_loop demo_entries_100
    by (simp add: valid_urgencies_def demo_sorted_100 demo_envelope_100_def)
qed

subsection \<open>the fields of an entry\<close>

lemma make_recommendation_copied:
  "supplier_name (make_recommendation name row q b p) = name"
  "country (make_recommendation name row q b p) = df_country row"
  "quality_rating (make_recommendation name row q b p) = df_quality_rating row"
  "price_usd (make_recommendation name row q b p) = df_price_usd row"
  "delivery_days (make_recommendation name row q b p) = df_delivery_days row"
  "payment_terms_days (make_recommendation name row q b p) = df_payment_terms_days row"
  "shipping_included (make_recommendation name row q b p) = df_shipping_included row"
  "express_available (make_recommendation name row q b p) = df_express_available row"
  by (simp_all add: make_recommendation_def Let_def)

lemma make_recommendation_cost:
  "total_cost (make_recommendation name row q b p) = py_round (cost_of row q) 2"
  "within_budget (make_recommendation name row q b p) \<longleftrightarrow> cost_of row q \<le> b"
  by (simp_all add: make_recommendation_def Let_def cost_of_def)

lemma make_recommendation_probability:
  "probability_score (make_recommendation name row q b p) = py_round p 3"
  by (simp add: make_recommendation_def Let_def)

lemma make_recommendation_score:
  "final_score (make_recommendation name row q b p)
     = py_round (weighted_sum (make_recommendation name row q b p)) 3"
  by (simp add: make_recommendation_def Let_def weighted_sum_def)

lemma make_recommendation_level:
  "recommendation_level (make_recommendation name row q b p)
     = level_of (weighted_sum (make_recommendation name row q b p))"
  by (simp add: make_recommendation_def Let_def weighted_sum_def level_of_def)

lemma recommend_suppliers_entry:
  assumes "recommend_suppliers s m pt u q b = Inr (Result env)" "r \<in> set (recommendations env)"
  obtains row input X ps p where
    "first_row (rows_of s pt) (supplier_name r) = Some row"
    "apply_encoding s (label_encoders s) (make_input_data m pt u q b row) = Inr input"
    "select_columns input (feature_names s) = Inr X"
    "model s X = Inr ps"
    "supplier_probability (target_encoder s) ps (supplier_name r) = Inr p"
    "r = make_recommendation (supplier_name r) row q b p"
proof -
  have "recommendation_for s m pt u q b (rows_of s pt) (supplier_name r) = Inr r"
    by (rule recommend_suppliers_member[OF assms])
  then show ?thesis using that by (elim recommendation_for_Inr) blast
qed

subsection \<open>bounds in float arithmetic\<close>

lemma finite_double_dyadic: "\<bar>n\<bar> \<le> 2 ^ 53 \<Longrightarrow> finite_double (of_int n / 4096)"
  by (rule finite_doubleI[of n "- 12"]) simp_all

lemma finite_double_one: "finite_double 1"
  using finite_double_of_int[of 1] by simp

lemma fmul_bound:
  assumes "0 \<le> f" "f \<le> 1" "0 \<le> v" "v \<le> W" "finite_double W"
  shows "0 \<le> fmul f v" "fmul f v \<le> W"
proof -
  have "0 \<le> f * v" using assms(1,3) by simp
  then show "0 \<le> fmul f v" unfolding fmul_def by (rule fl_nonneg)
  have "f * v \<le> 1 * v" by (rule mult_right_mono[OF assms(2,3)])
  then have "f * v \<le> W" using assms(4) by simp
  then show "fmul f v \<le> W" unfolding fmul_def by (rule fl_le[OF _ assms(5)])
qed

lemma fadd_bound:
  assumes "0 \<le> a" "a \<le> A" "0 \<le> b" "b \<le> B" "finite_double (A + B)"
  shows "0 \<le> fadd a b" "fadd a b \<le> A + B"
proof -
  have "0 \<le> a + b" using assms(1,3) by simp
  then show "0 \<le> fadd a b" unfolding fadd_def by (rule fl_nonneg)
  have "a + b \<le> A + B" using assms(2,4) by simp
  then show "fadd a b \<le> A + B" unfolding fadd_def by (rule fl_le[OF _ assms(5)])
qed

lemma fl_weight:
  assumes "0 \<le> w" "w \<le> W" "finite_double W"
  shows "0 \<le> fl w \<and> fl w \<le> W"
  using fl_nonneg[OF assms(1)] fl_le[OF assms(2,3)] by simp

lemma fmul_weight:
  assumes "0 \<le> f" "f \<le> 1" "0 \<le> w" "w \<le> W" "finite_double W"
  shows "0 \<le> fmul f (fl w) \<and> fmul f (fl w) \<le> W"
proof -
  have "0 \<le> fl w" "fl w \<le> W" using fl_weight[OF assms(3,4,5)] by simp_all
  then show ?thesis using fmul_bound[OF assms(1,2) _ _ assms(5), of "fl w"] by simp
qed

lemma weighted_sum_range:
  assumes "0 \<le> probability_score r" "probability_score r \<le> 1"
    "0 \<le> quality_rating r" "quality_rating r \<le> 5"
  shows "0 \<le> weighted_sum r" "weighted_sum r \<le> 4098 / 4096"
proof -
  define t1 where "t1 = fmul (probability_score r) (fl 0.4)"
  define t2 where "t2 = fmul (fdiv (quality_rating r) 5.0) 0.25"
  define t3 where "t3 = fmul (if within_budget r then 1.0 else 0.5) (fl 0.2)"
  define t4 where "t4 = fmul (if delivery_days r \<le> 15 then 1.0 else fl 0.7) (fl 0.1)"
  define t5 where "t5 = fmul (if payment_terms_days r > 0 then 1.0 else fl 0.8) (fl 0.05)"
  have w: "weighted_sum r = fadd (fadd (fadd (fadd t1 t2) t3) t4) t5"
    by (simp add: weighted_sum_def t1_def t2_def t3_def t4_def t5_def)
  have d1: "finite_double (1639 / 4096)" using finite_double_dyadic[of 1639] by simp
  have d2: "finite_double (1 / 4)" using finite_double_dyadic[of 1024] by simp
  have d3: "finite_double (820 / 4096)" using finite_double_dyadic[of 820] by simp
  have d4: "finite_double (410 / 4096)" using finite_double_dyadic[of 410] by simp
  have d5: "finite_double (205 / 4096)" using finite_double_dyadic[of 205] by simp
  have b1: "0 \<le> t1 \<and> t1 \<le> 1639 / 4096"
    unfolding t1_def by (rule fmul_weight[OF assms(1,2) _ _ d1]) simp_all
  have "0 \<le> quality_rating r / 5" "quality_rating r / 5 \<le> 1" using assms(3,4) by simp_all
  then have q: "0 \<le> fdiv (quality_rating r) 5.0" "fdiv (quality_rating r) 5.0 \<le> 1"
    using fl_weight[OF _ _ finite_double_one, of "quality_rating r / 5"]
    by (simp_all add: fdiv_def)
  have b2: "0 \<le> t2 \<and> t2 \<le> 1 / 4"
    unfolding t2_def using fmul_bound[OF q _ _ d2, of "1 / 4"] by simp
  have f7: "0 \<le> fl 0.7 \<and> fl 0.7 \<le> 1" by (rule fl_weight[OF _ _ finite_double_one]) simp_all
  have f8: "0 \<le> fl 0.8 \<and> fl 0.8 \<le> 1" by (rule fl_weight[OF _ _ finite_double_one]) simp_all
  have b3: "0 \<le> t3 \<and> t3 \<le> 820 / 4096"
    unfolding t3_def by (rule fmul_weight[OF _ _ _ _ d3]) simp_all
  have b4: "0 \<le> t4 \<and> t4 \<le> 410 / 4096"
    unfolding t4_def using f7 by (intro fmul_weight[OF _ _ _ _ d4]) simp_all
  have b5: "0 \<le> t5 \<and> t5 \<le> 205 / 4096"
    unfolding t5_def using f8 by (intro fmul_weight[OF _ _ _ _ d5]) simp_all
  have e12: "finite_double (1639 / 4096 + 1 / 4)" using finite_double_dyadic[of 2663] by simp
  have s12: "0 \<le> fadd t1 t2" "fadd t1 t2 \<le> 1639 / 4096 + 1 / 4"
    using fadd_bound[OF _ _ _ _ e12, of t1 t2] b1 b2 by simp_all
  have e3: "finite_double (1639 / 4096 + 1 / 4 + 820 / 4096)"
    using finite_double_dyadic[of 3483] by simp
  have s3: "0 \<le> fadd (fadd t1 t2) t3"
    "fadd (fadd t1 t2) t3 \<le> 1639 / 4096 + 1 / 4 + 820 / 4096"
    using fadd_bound[OF s12 _ _ e3, of t3] b3 by simp_all
  have e4: "finite_double (1639 / 4096 + 1 / 4 + 820 / 4096 + 410 / 4096)"
    using finite_double_dyadic[of 3893] by simp
  have s4: "0 \<le> fadd (fadd (fadd t1 t2) t3) t4"
    "fadd (fadd (fadd t1 t2) t3) t4 \<le> 1639 / 4096 + 1 / 4 + 820 / 4096 + 410 / 4096"
    using fadd_bound[OF s3 _ _ e4, of t4] b4 by simp_all
  have e5: "finite_double (1639 / 4096 + 1 / 4 + 820 / 4096 + 410 / 4096 + 205 / 4096)"
    using finite_double_dyadic[of 4098] by simp
  have s5: "0 \<le> fadd (fadd (fadd (fadd t1 t2) t3) t4) t5"
    "fadd (fadd (fadd (fadd t1 t2) t3) t4) t5
       \<le> 1639 / 4096 + 1 / 4 + 820 / 4096 + 410 / 4096 + 205 / 4096"
    using fadd_bound[OF s4 _ _ e5, of t5] b5 by simp_all
  show "0 \<le> weighted_sum r" unfolding w by (rule s5(1))
  show "weighted_sum r \<le> 4098 / 4096" unfolding w using s5(2) by simp
qed

lemma thresholds:
  "fl 0.45 \<le> 1 / 2" "1 / 2 \<le> fl 0.6" "fl 0.6 \<le> 3 / 4"
proof -
  have h: "finite_double (1 / 2)" using finite_double_dyadic[of 2048] by simp
  have t: "finite_double (3 / 4)" using finite_double_dyadic[of 3072] by simp
  show "fl 0.45 \<le> 1 / 2" by (rule fl_le[OF _ h]) simp
  show "1 / 2 \<le> fl 0.6" by (rule fl_ge[OF _ h]) simp
  show "fl 0.6 \<le> 3 / 4" by (rule fl_le[OF _ t]) simp
qed

lemma level_of_cases:
  "level_of x \<in> {''Altamente Recomendado'', ''Recomendado'', ''Aceptable'', ''No Recomendado''}"
  by (simp add: level_of_def)

lemma level_of_iff:
  "level_of x = ''Altamente Recomendado'' \<longleftrightarrow> 0.75 \<le> x"
  "level_of x = ''Recomendado'' \<longleftrightarrow> fl 0.6 \<le> x \<and> x < 0.75"
  "level_of x = ''Aceptable'' \<longleftrightarrow> fl 0.45 \<le> x \<and> x < fl 0.6"
  "level_of x = ''No Recomendado'' \<longleftrightarrow> x < fl 0.45"
  using thresholds by (auto simp add: level_of_def)

section \<open>Ordering of the recommendations\<close>

text \<open>
  Claim C4. In every successful call the returned list is sorted by \<open>final_score\<close> in
  descending order, and entries with equal \<open>final_score\<close> keep the order in which the
  loop produced them, which is the order of first appearance of their suppliers in the
  catalog.
\<close>

theorem recommendations_sorted_stable:
  assumes "recommend_suppliers s m pt u q b = Inr (Result env)"
  shows "sorted_wrt (\<lambda>a b. final_score a \<ge> final_score b) (recommendations env)
     \<and> (\<exists>rs. recommendations_loop s m pt u q b (rows_of s pt)
                (unique (map df_supplier_name (rows_of s pt))) = Inr rs
            \<and> map supplier_name rs = unique (map df_supplier_name (rows_of s pt))
            \<and> (\<forall>k. filter (\<lambda>r. final_score r = k) (recommendations env)
                     = filter (\<lambda>r. final_score r = k) rs))"
proof -
  from assms obtain rs where
    l: "recommendations_loop s m pt u q b (rows_of s pt)
          (unique (map df_supplier_name (rows_of s pt))) = Inr rs"
    and e: "env = \<lparr> res_product_type = pt, res_urgency = u, res_quantity = q, res_budget = b,
             recommendations = list_sort final_score True rs,
             total_options = int (length rs) \<rparr>"
    by (rule recommend_suppliers_Result)
  have re: "recommendations env = list_sort final_score True rs" using e by simp
  have 1: "sorted_wrt (\<lambda>a b. final_score a \<ge> final_score b) (recommendations env)"
    unfolding re by (rule list_sort_descending)
  have 2: "map supplier_name rs = unique (map df_supplier_name (rows_of s pt))"
    by (rule recommendations_loop_names[OF l])
  have 3: "\<forall>k. filter (\<lambda>r. final_score r = k) (recommendations env)
                     = filter (\<lambda>r. final_score r = k) rs"
    unfolding re by (simp add: list_sort_stable)
  from 1 2 3 l show ?thesis by blast
qed

theorem recommendations_sorted_stable_witness:
  "recommend_suppliers demo_system 11 ''valve_butterfly'' ''Low'' 1 600
       = Inr (Result demo_envelope)
   \<and> sorted_wrt (\<lambda>a b. final_score a \<ge> final_score b) (recommendations demo_envelope)
   \<and> (\<exists>rs. recommendations_loop demo_system 11 ''valve_butterfly'' ''Low'' 1 600
                (rows_of demo_system ''valve_butterfly'')
                (unique (map df_supplier_name (rows_of demo_system ''valve_butterfly'')))
              = Inr rs
            \<and> map supplier_name rs
                = unique (map df_supplier_name (rows_of demo_system ''valve_butterfly''))
            \<and> (\<forall>k. filter (\<lambda>r. final_score r = k) (recommendations demo_envelope)
                     = filter (\<lambda>r. final_score r = k) rs))"
  using recommendations_sorted_stable[OF demo_run] demo_run by blast

section \<open>One entry per supplier\<close>

text \<open>
  Claim C10. In every successful call each distinct supplier name among the rows of the
  requested product has exactly one entry; the entry is the one computed from the first
  row of that supplier alone, so later rows of the same supplier have no effect; and
  \<open>total_options\<close> is the number of distinct suppliers.
\<close>

theorem one_entry_per_supplier:
  assumes "recommend_suppliers s m pt u q b = Inr (Result env)"
  shows "distinct (map supplier_name (recommendations env))
     \<and> set (map supplier_name (recommendations env)) = df_supplier_name ` set (rows_of s pt)
     \<and> total_options env = int (card (df_supplier_name ` set (rows_of s pt)))
     \<and> total_options env = int (length (recommendations env))
     \<and> (\<forall>r \<in> set (recommendations env).
          \<exists>row. first_row (rows_of s pt) (supplier_name r) = Some row
              \<and> recommendation_for s m pt u q b [row] (supplier_name r) = Inr r)"
proof -
  from assms obtain rs where
    l: "recommendations_loop s m pt u q b (rows_of s pt)
          (unique (map df_supplier_name (rows_of s pt))) = Inr rs"
    and e: "env = \<lparr> res_product_type = pt, res_urgency = u, res_quantity = q, res_budget = b,
             recommendations = list_sort final_score True rs,
             total_options = int (length rs) \<rparr>"
    by (rule recommend_suppliers_Result)
  have re: "recommendations env = list_sort final_score True rs" using e by simp
  have n: "map supplier_name rs = unique (map df_supplier_name (rows_of s pt))"
    by (rule recommendations_loop_names[OF l])
  have 1: "distinct (map supplier_name (recommendations env))"
    unfolding re distinct_map_list_sort n by (rule distinct_unique)
  have "set (map supplier_name (recommendations env)) = set (map supplier_name rs)"
    unfolding re by (simp add: set_list_sort)
  then have 2: "set (map supplier_name (recommendations env))
      = df_supplier_name ` set (rows_of s pt)"
    unfolding n by (simp add: set_unique)
  have "length rs = length (unique (map df_supplier_name (rows_of s pt)))"
    using n by (metis length_map)
  then have 3: "total_options env = int (card (df_supplier_name ` set (rows_of s pt)))"
    using e by (simp add: length_unique)
  have 4: "total_options env = int (length (recommendations env))"
    using e by (simp add: length_list_sort)
  have 5: "\<forall>r \<in> set (recommendations env).
          \<exists>row. first_row (rows_of s pt) (supplier_name r) = Some row
              \<and> recommendation_for s m pt u q b [row] (supplier_name r) = Inr r"
  proof
    fix r assume r: "r \<in> set (recommendations env)"
    have f: "recommendation_for s m pt u q b (rows_of s pt) (supplier_name r) = Inr r"
      by (rule recommend_suppliers_member[OF assms r])
    then obtain row where row: "first_row (rows_of s pt) (supplier_name r) = Some row"
      by (rule recommendation_for_Inr)
    have "df_supplier_name row = supplier_name r" using first_row_in[OF row] by simp
    then have "first_row (rows_of s pt) (supplier_name r) = first_row [row] (supplier_name r)"
      using row by (simp add: first_row_single)
    then have "recommendation_for s m pt u q b [row] (supplier_name r) = Inr r"
      using f recommendation_for_first_row by metis
    with row show "\<exists>row. first_row (rows_of s pt) (supplier_name r) = Some row
              \<and> recommendation_for s m pt u q b [row] (supplier_name r) = Inr r" by blast
  qed
  from 1 2 3 4 5 show ?thesis by blast
qed

theorem one_entry_per_supplier_witness:
  "recommend_suppliers demo_system 11 ''valve_butterfly'' ''Low'' 1 600
       = Inr (Result demo_envelope)
   \<and> distinct (map supplier_name (recommendations demo_envelope))
   \<and> total_options demo_envelope = 3
   \<and> demo_entry_alfa \<in> set (recommendations demo_envelope)
   \<and> (\<exists>row. first_row (rows_of demo_system ''valve_butterfly'') ''Alfa'' = Some row
          \<and> recommendation_for demo_system 11 ''valve_butterfly'' ''Low'' 1 600 [row] ''Alfa''
               = Inr demo_entry_alfa)"
proof -
  have m: "demo_entry_alfa \<in> set (recommendations demo_envelope)"
    by (simp add: demo_envelope_def)
  have n: "supplier_name demo_entry_alfa = ''Alfa''" by (simp add: demo_entry_alfa_def)
  have t: "total_options demo_envelope = 3" by (simp add: demo_envelope_def)
  show ?thesis
    using one_entry_per_supplier[OF demo_run] demo_run m n t by fastforce
qed

lemma demo_quality:
  "\<forall>row \<in> set (df demo_system). 0 \<le> df_quality_rating row \<and> df_quality_rating row \<le> 5"
  by (simp add: demo_system_def demo_alfa_def demo_beta_def demo_alfa_late_def
      demo_gamma_def demo_roll_def)

lemma demo_model_range:
  "\<forall>X ps. model demo_system X = Inr ps \<longrightarrow> (\<forall>x \<in> set ps. 0 \<le> x \<and> x \<le> 1)"
  by (auto simp add: demo_system_def demo_fl)

section \<open>The final score\<close>

text \<open>
  Claim C6. When every catalog row has a quality rating between 0 and 5 and the
  classifier returns probabilities between 0 and 1, the final score of every entry of a
  successful call lies between 0 and 1.
\<close>

theorem final_score_in_unit_interval:
  assumes "recommend_suppliers s m pt u q b = Inr (Result env)"
    and "\<forall>row \<in> set (df s). 0 \<le> df_quality_rating row \<and> df_quality_rating row \<le> 5"
    and "\<forall>X ps. model s X = Inr ps \<longrightarrow> (\<forall>x \<in> set ps. 0 \<le> x \<and> x \<le> 1)"
    and "r \<in> set (recommendations env)"
  shows "0 \<le> final_score r \<and> final_score r \<le> 1"
proof -
  from assms(1,4) obtain row input X ps p where
    row: "first_row (rows_of s pt) (supplier_name r) = Some row"
    and ps: "model s X = Inr ps"
    and p: "supplier_probability (target_encoder s) ps (supplier_name r) = Inr p"
    and r: "r = make_recommendation (supplier_name r) row q b p"
    by (rule recommend_suppliers_entry)
  have "row \<in> set (df s)" using first_row_in[OF row] rows_of_subset by blast
  then have qr: "0 \<le> df_quality_rating row" "df_quality_rating row \<le> 5"
    using assms(2) by auto
  have "\<forall>x \<in> set ps. 0 \<le> x \<and> x \<le> 1" using assms(3) ps by blast
  then have pr: "0 \<le> p" "p \<le> 1" using supplier_probability_range[OF p] by auto
  have "p * 10 ^ 3 < 10 ^ 3 + 1 / 2" using pr(2) by simp
  then have "py_round p 3 \<le> 1" by (rule py_round_upper)
  then have a: "0 \<le> probability_score r" "probability_score r \<le> 1"
    using r make_recommendation_probability[of "supplier_name r" row q b p]
      py_round_lower[OF pr(1), of 3] by simp_all
  have c: "0 \<le> quality_rating r" "quality_rating r \<le> 5"
    using r make_recommendation_copied(3)[of "supplier_name r" row q b p] qr by simp_all
  have w: "0 \<le> weighted_sum r" "weighted_sum r \<le> 4098 / 4096"
    by (rule weighted_sum_range[OF a c])+
  have "weighted_sum r * 10 ^ 3 < 10 ^ 3 + 1 / 2" using w(2) by simp
  then have u: "py_round (weighted_sum r) 3 \<le> 1" by (rule py_round_upper)
  have "final_score r = py_round (weighted_sum r) 3"
    using r make_recommendation_score[of "supplier_name r" row q b p] by simp
  then show ?thesis using py_round_lower[OF w(1), of 3] u by simp
qed

theorem final_score_in_unit_interval_witness:
  "recommend_suppliers demo_system 11 ''valve_butterfly'' ''Low'' 1 600
       = Inr (Result demo_envelope)
   \<and> demo_entry_beta \<in> set (recommendations demo_envelope)
   \<and> final_score demo_entry_beta = 0.75
   \<and> 0 \<le> final_score demo_entry_beta \<and> final_score demo_entry_beta \<le> 1"
proof -
  have m: "demo_entry_beta \<in> set (recommendations demo_envelope)"
    by (simp add: demo_envelope_def)
  have f: "final_score demo_entry_beta = 0.75" by (simp add: demo_entry_beta_def)
  show ?thesis
    using final_score_in_unit_interval[OF demo_run demo_quality demo_model_range m] demo_run m f
    by blast
qed

text \<open>
  Claim C1, as the code has it. The final score of every entry is the weighted sum
  \<open>0.4 \<cdot> probability_score + 0.25 \<cdot> quality_rating / 5 + 0.2 \<cdot> price_score
  + 0.1 \<cdot> delivery_score + 0.05 \<cdot> payment_score\<close>, evaluated in float arithmetic from
  left to right and rounded to three places, where the probability that enters the sum
  is the entry's \<open>probability_score\<close>: the probability that the classifier gives the
  supplier for the encoded features of the supplier's first row, already rounded to
  three places.
\<close>

theorem final_score_formula:
  assumes "recommend_suppliers s m pt u q b = Inr (Result env)"
    and "r \<in> set (recommendations env)"
  shows "final_score r = py_round (weighted_sum r) 3
     \<and> (\<exists>row input X ps p.
           first_row (rows_of s pt) (supplier_name r) = Some row
         \<and> apply_encoding s (label_encoders s) (make_input_data m pt u q b row) = Inr input
         \<and> select_columns input (feature_names s) = Inr X
         \<and> model s X = Inr ps
         \<and> supplier_probability (target_encoder s) ps (supplier_name r) = Inr p
         \<and> probability_score r = py_round p 3
         \<and> quality_rating r = df_quality_rating row
         \<and> within_budget r = (cost_of row q \<le> b)
         \<and> delivery_days r = df_delivery_days row
         \<and> payment_terms_days r = df_payment_terms_days row)"
proof -
  from assms obtain row input X ps p where
    row: "first_row (rows_of s pt) (supplier_name r) = Some row"
    and i: "apply_encoding s (label_encoders s) (make_input_data m pt u q b row) = Inr input"
    and x: "select_columns input (feature_names s) = Inr X"
    and ps: "model s X = Inr ps"
    and p: "supplier_probability (target_encoder s) ps (supplier_name r) = Inr p"
    and r: "r = make_recommendation (supplier_name r) row q b p"
    by (rule recommend_suppliers_entry)
  have 1: "final_score r = py_round (weighted_sum r) 3"
    using r make_recommendation_score[of "supplier_name r" row q b p] by simp
  have 2: "probability_score r = py_round p 3"
    using r make_recommendation_probability[of "supplier_name r" row q b p] by simp
  have 3: "quality_rating r = df_quality_rating row"
    "delivery_days r = df_delivery_days row"
    "payment_terms_days r = df_payment_terms_days row"
    using r make_recommendation_copied[of "supplier_name r" row q b p] by simp_all
  have 4: "within_budget r = (cost_of row q \<le> b)"
    using r make_recommendation_cost(2)[of "supplier_name r" row q b p] by simp
  from 1 2 3 4 row i x ps p show ?thesis by blast
qed

theorem final_score_formula_witness:
  "recommend_suppliers demo_system 11 ''valve_butterfly'' ''Low'' 1 600
       = Inr (Result demo_envelope)
   \<and> demo_entry_alfa \<in> set (recommendations demo_envelope)
   \<and> final_score demo_entry_alfa = py_round (weighted_sum demo_entry_alfa) 3
   \<and> probability_score demo_entry_alfa = py_round (fl 0.0014) 3
   \<and> final_score demo_entry_alfa = fl 0.55"
proof -
  have m: "demo_entry_alfa \<in> set (recommendations demo_envelope)"
    by (simp add: demo_envelope_def)
  have f: "final_score demo_entry_alfa = fl 0.55" by (simp add: demo_entry_alfa_def)
  have p: "probability_score demo_entry_alfa = py_round (fl 0.0014) 3"
    by (simp add: demo_entry_alfa_def float_eval)
  show ?thesis using final_score_formula[OF demo_run m] demo_run m f p by blast
qed

text \<open>
  The claim as stated, with the classifier's own probability in the sum, fails: the
  classifier gives the supplier Alfa the probability 0.0014; the sum with 0.0014,
  in float arithmetic as in exact arithmetic, rounds to 0.551, and the entry reports
  0.55.
\<close>

theorem final_score_formula_counterexample:
  "recommend_suppliers demo_system 11 ''valve_butterfly'' ''Low'' 1 600
       = Inr (Result demo_envelope)
   \<and> demo_entry_alfa \<in> set (recommendations demo_envelope)
   \<and> model demo_system [] = Inr [fl 0.0014, fl 0.4995]
   \<and> supplier_probability (target_encoder demo_system) [fl 0.0014, fl 0.4995] ''Alfa''
        = Inr (fl 0.0014)
   \<and> py_round (weighted_sum_with (fl 0.0014) demo_entry_alfa) 3 = fl 0.551
   \<and> py_round (exact_sum_with (fl 0.0014) demo_entry_alfa) 3 = fl 0.551
   \<and> final_score demo_entry_alfa = fl 0.55
   \<and> fl 0.55 < fl 0.551
   \<and> final_score demo_entry_alfa \<noteq> py_round (weighted_sum_with (fl 0.0014) demo_entry_alfa) 3"
proof -
  have m: "demo_entry_alfa \<in> set (recommendations demo_envelope)"
    by (simp add: demo_envelope_def)
  have w: "py_round (weighted_sum_with (fl 0.0014) demo_entry_alfa) 3 = fl 0.551"
    by (simp add: weighted_sum_with_def demo_entry_alfa_def float_eval)
  have e: "py_round (exact_sum_with (fl 0.0014) demo_entry_alfa) 3 = fl 0.551"
    by (simp add: exact_sum_with_def demo_entry_alfa_def float_eval)
  have f: "final_score demo_entry_alfa = fl 0.55" by (simp add: demo_entry_alfa_def)
  have l: "fl 0.55 < fl 0.551" by (simp add: demo_fl)
  have n: "final_score demo_entry_alfa \<noteq> py_round (weighted_sum_with (fl 0.0014) demo_entry_alfa) 3"
    unfolding w f using l by simp
  show ?thesis using demo_run m demo_model[of "[]"] demo_probabilities(1) w e f l n by blast
qed

section \<open>The recommendation level\<close>

text \<open>
  Claim C2, as the code has it. Every entry carries exactly one of the four levels, and
  the level is given by the thresholds \<^verbatim>\<open>0.75\<close>, \<^verbatim>\<open>0.6\<close> and \<^verbatim>\<open>0.45\<close> (the doubles of these
  literals), from high to low, applied to the weighted sum before it is rounded. The
  reported final score is that sum rounded to three places.
\<close>

theorem level_from_unrounded_sum:
  assumes "recommend_suppliers s m pt u q b = Inr (Result env)"
    and "r \<in> set (recommendations env)"
  shows "recommendation_level r = level_of (weighted_sum r)
     \<and> final_score r = py_round (weighted_sum r) 3
     \<and> recommendation_level r
          \<in> {''Altamente Recomendado'', ''Recomendado'', ''Aceptable'', ''No Recomendado''}
     \<and> (recommendation_level r = ''Altamente Recomendado'' \<longleftrightarrow> 0.75 \<le> weighted_sum r)
     \<and> (recommendation_level r = ''Recomendado''
           \<longleftrightarrow> fl 0.6 \<le> weighted_sum r \<and> weighted_sum r < 0.75)
     \<and> (recommendation_level r = ''Aceptable''
           \<longleftrightarrow> fl 0.45 \<le> weighted_sum r \<and> weighted_sum r < fl 0.6)
     \<and> (recommendation_level r = ''No Recomendado'' \<longleftrightarrow> weighted_sum r < fl 0.45)"
proof -
  from assms obtain row input X ps p where
    r: "r = make_recommendation (supplier_name r) row q b p"
    by (rule recommend_suppliers_entry)
  have 1: "recommendation_level r = level_of (weighted_sum r)"
    using r make_recommendation_level[of "supplier_name r" row q b p] by simp
  have 2: "final_score r = py_round (weighted_sum r) 3"
    using r make_recommendation_score[of "supplier_name r" row q b p] by simp
  have 3: "recommendation_level r
          \<in> {''Altamente Recomendado'', ''Recomendado'', ''Aceptable'', ''No Recomendado''}"
    unfolding 1 by (rule level_of_cases)
  show ?thesis using 2 3 unfolding 1 level_of_iff by simp
qed

theorem level_from_unrounded_sum_witness:
  "recommend_suppliers demo_system 11 ''valve_butterfly'' ''Low'' 1 600
       = Inr (Result demo_envelope)
   \<and> demo_entry_beta \<in> set (recommendations demo_envelope)
   \<and> fl 0.6 \<le> weighted_sum demo_entry_beta \<and> weighted_sum demo_entry_beta < 0.75
   \<and> recommendation_level demo_entry_beta = level_of (weighted_sum demo_entry_beta)
   \<and> recommendation_level demo_entry_beta = ''Recomendado''"
proof -
  have m: "demo_entry_beta \<in> set (recommendations demo_envelope)"
    by (simp add: demo_envelope_def)
  have l: "recommendation_level demo_entry_beta = ''Recomendado''"
    by (simp add: demo_entry_beta_def)
  show ?thesis using level_from_unrounded_sum[OF demo_run m] demo_run m l by simp
qed

text \<open>
  The claim as stated, with the thresholds applied to the reported final score, fails:
  the entry of the supplier Beta reports the final score 0.75, for which the thresholds
  give the highest level, and carries the second level.
\<close>

theorem level_from_unrounded_sum_counterexample:
  "recommend_suppliers demo_system 11 ''valve_butterfly'' ''Low'' 1 600
       = Inr (Result demo_envelope)
   \<and> demo_entry_beta \<in> set (recommendations demo_envelope)
   \<and> final_score demo_entry_beta = 0.75
   \<and> level_of (final_score demo_entry_beta) = ''Altamente Recomendado''
   \<and> recommendation_level demo_entry_beta = ''Recomendado''
   \<and> recommendation_level demo_entry_beta \<noteq> level_of (final_score demo_entry_beta)"
proof -
  have m: "demo_entry_beta \<in> set (recommendations demo_envelope)"
    by (simp add: demo_envelope_def)
  have f: "final_score demo_entry_beta = 0.75" by (simp add: demo_entry_beta_def)
  have l: "level_of (final_score demo_entry_beta) = ''Altamente Recomendado''"
    unfolding f by (simp add: level_of_def)
  have c: "recommendation_level demo_entry_beta = ''Recomendado''"
    by (simp add: demo_entry_beta_def)
  have n: "recommendation_level demo_entry_beta \<noteq> level_of (final_score demo_entry_beta)"
    unfolding l c by simp
  show ?thesis using demo_run m f l c n by blast
qed

section \<open>Cost and budget\<close>

lemma finite_double_cost_of: "finite_double (cost_of row q)"
  by (simp add: cost_of_def fmul_def fadd_def finite_double_fl)

lemma cost_of_lower: "fmul (df_price_usd row) (float_of_int q) \<le> cost_of row q"
proof (cases "df_shipping_included row")
  case True
  then show ?thesis by (simp add: cost_of_def)
next
  case False
  have "finite_double (fmul (df_price_usd row) (float_of_int q))"
    by (simp add: fmul_def finite_double_fl)
  then have "fmul (df_price_usd row) (float_of_int q)
      \<le> fl (fmul (df_price_usd row) (float_of_int q) + 300)"
    by (intro fl_ge) simp_all
  then show ?thesis using False by (simp add: cost_of_def fadd_def)
qed

lemma py_round_exact:
  assumes "finite_double x" "x * 10 ^ n = of_int k"
  shows "py_round x n = x"
proof -
  have "(of_int k :: rat) / 10 ^ n = x" using assms(2)[symmetric] by simp
  then show ?thesis
    unfolding py_round_def assms(2) round_half_even_of_int by (simp add: fl_id[OF assms(1)])
qed

text \<open>
  Claim C5, as the code has it. The cost of an offer is the float product
  \<open>price_usd \<times> quantity\<close> when shipping is included and the float sum of that product
  and 300 otherwise, so it is at least the product, and equal to it when shipping is
  included. The entry reports this cost rounded to two places, and \<open>within_budget\<close> is
  true exactly when the cost before rounding is at most the budget. When the cost is a
  whole number of hundredths the reported \<open>total_cost\<close> is the cost itself.
\<close>

theorem total_cost_and_budget:
  assumes "recommend_suppliers s m pt u q b = Inr (Result env)"
    and "r \<in> set (recommendations env)"
  shows "\<exists>row. first_row (rows_of s pt) (supplier_name r) = Some row
     \<and> price_usd r = df_price_usd row
     \<and> shipping_included r = df_shipping_included row
     \<and> cost_of row q = (if shipping_included r then fmul (price_usd r) (float_of_int q)
                         else fadd (fmul (price_usd r) (float_of_int q)) 300)
     \<and> fmul (price_usd r) (float_of_int q) \<le> cost_of row q
     \<and> total_cost r = py_round (cost_of row q) 2
     \<and> ((\<exists>k. cost_of row q * 100 = of_int k) \<longrightarrow> total_cost r = cost_of row q)
     \<and> (within_budget r \<longleftrightarrow> cost_of row q \<le> b)"
proof -
  from assms obtain row input X ps p where
    row: "first_row (rows_of s pt) (supplier_name r) = Some row"
    and r: "r = make_recommendation (supplier_name r) row q b p"
    by (rule recommend_suppliers_entry)
  have 1: "price_usd r = df_price_usd row" "shipping_included r = df_shipping_included row"
    using r make_recommendation_copied[of "supplier_name r" row q b p] by simp_all
  have 2: "cost_of row q = (if shipping_included r then fmul (price_usd r) (float_of_int q)
                         else fadd (fmul (price_usd r) (float_of_int q)) 300)"
    unfolding 1 by (simp add: cost_of_def)
  have 3: "fmul (price_usd r) (float_of_int q) \<le> cost_of row q"
    unfolding 1 by (rule cost_of_lower)
  have 4: "total_cost r = py_round (cost_of row q) 2" "within_budget r \<longleftrightarrow> cost_of row q \<le> b"
    using r make_recommendation_cost[of "supplier_name r" row q b p] by simp_all
  have 5: "(\<exists>k. cost_of row q * 100 = of_int k) \<longrightarrow> total_cost r = cost_of row q"
    unfolding 4 using py_round_exact[OF finite_double_cost_of, of row q 2] by auto
  from row 1 2 3 4 5 show ?thesis by blast
qed

theorem total_cost_and_budget_witness:
  "recommend_suppliers demo_system 11 ''valve_butterfly'' ''Low'' 1 600
       = Inr (Result demo_envelope)
   \<and> demo_entry_gamma \<in> set (recommendations demo_envelope)
   \<and> first_row (rows_of demo_system ''valve_butterfly'') ''Gamma'' = Some demo_gamma
   \<and> cost_of demo_gamma 1 = 350
   \<and> total_cost demo_entry_gamma = 350
   \<and> within_budget demo_entry_gamma"
proof -
  have m: "demo_entry_gamma \<in> set (recommendations demo_envelope)"
    by (simp add: demo_envelope_def)
  have n: "supplier_name demo_entry_gamma = ''Gamma''" by (simp add: demo_entry_gamma_def)
  have f: "first_row (rows_of demo_system ''valve_butterfly'') ''Gamma'' = Some demo_gamma"
    unfolding demo_rows by (rule demo_first_rows(3))
  have c: "cost_of demo_gamma 1 = 350" by (simp add: cost_of_def demo_gamma_def float_eval)
  obtain row where
    "first_row (rows_of demo_system ''valve_butterfly'') (supplier_name demo_entry_gamma) = Some row"
    "within_budget demo_entry_gamma \<longleftrightarrow> cost_of row 1 \<le> 600"
    "(\<exists>k. cost_of row 1 * 100 = of_int k) \<longrightarrow> total_cost demo_entry_gamma = cost_of row 1"
    using total_cost_and_budget[OF demo_run m] by auto
  then have w: "within_budget demo_entry_gamma \<longleftrightarrow> cost_of demo_gamma 1 \<le> 600"
    and t: "(\<exists>k. cost_of demo_gamma 1 * 100 = of_int k)
              \<longrightarrow> total_cost demo_entry_gamma = cost_of demo_gamma 1"
    using f n by simp_all
  have "cost_of demo_gamma 1 * 100 = of_int 35000" unfolding c by simp
  then have t': "total_cost demo_entry_gamma = 350" using t c by metis
  show ?thesis using demo_run m f c t' w by simp
qed

text \<open>
  The claim as stated, about the reported \<open>total_cost\<close>, fails: for the supplier Beta,
  with shipping included, a price of 100.004 and one unit, the entry reports the total
  cost 100, which is less than \<open>price_usd \<times> quantity\<close>; and with the budget 100 the
  reported total cost is within the budget while \<open>within_budget\<close> is false.
\<close>

theorem total_cost_and_budget_counterexample:
  "recommend_suppliers demo_system 11 ''valve_butterfly'' ''Low'' 1 100
       = Inr (Result demo_envelope_100)
   \<and> demo_entry_beta_100 \<in> set (recommendations demo_envelope_100)
   \<and> shipping_included demo_entry_beta_100
   \<and> price_usd demo_entry_beta_100 = fl 100.004
   \<and> fmul (price_usd demo_entry_beta_100) (float_of_int 1) = fl 100.004
   \<and> 100 < fl 100.004
   \<and> total_cost demo_entry_beta_100 = 100
   \<and> total_cost demo_entry_beta_100 \<noteq> price_usd demo_entry_beta_100 * 1
   \<and> total_cost demo_entry_beta_100 < price_usd demo_entry_beta_100 * 1
   \<and> total_cost demo_entry_beta_100 \<le> 100
   \<and> \<not> within_budget demo_entry_beta_100"
proof -
  have m: "demo_entry_beta_100 \<in> set (recommendations demo_envelope_100)"
    by (simp add: demo_envelope_100_def)
  have l: "(100 :: rat) < fl 100.004" by (simp add: demo_fl)
  have p: "fmul (fl 100.004) (float_of_int 1) = fl 100.004" by (simp add: float_eval)
  show ?thesis
    using demo_run_100 m l p by (simp add: demo_entry_beta_100_def)
qed

section \<open>Suppliers and categories that the trained artifacts do not know\<close>








section \<open>Error results\<close>

lemma recommend_suppliers_urgency:
  "u \<notin> set valid_urgencies \<Longrightarrow>
     recommend_suppliers s m pt u q b = Inr (Error (UrgenciaInvalida valid_urgencies))"
  by (simp add: recommend_suppliers_def)

lemma recommend_suppliers_not_found:
  "u \<in> set valid_urgencies \<Longrightarrow> rows_of s pt = [] \<Longrightarrow>
     recommend_suppliers s m pt u q b
       = Inr (Error (ProductoNoEncontrado (unique (map df_product_type (df s)))))"
  by (simp add: recommend_suppliers_def rows_of_def)

lemma recommend_suppliers_no_error:
  assumes "u \<in> set valid_urgencies" "rows_of s pt \<noteq> []"
  shows "recommend_suppliers s m pt u q b \<noteq> Inr (Error e)"
proof (cases "recommendations_loop s m pt u q b (rows_of s pt)
                (unique (map df_supplier_name (rows_of s pt)))")
  case (Inl err)
  then show ?thesis using assms by (simp add: recommend_suppliers_def rows_of_def)
next
  case (Inr rs)
  then show ?thesis using assms by (simp add: recommend_suppliers_def rows_of_def Let_def)
qed

lemma recommend_suppliers_error_iff:
  "(\<exists>e. recommend_suppliers s m pt u q b = Inr (Error e))
     \<longleftrightarrow> (u \<notin> set valid_urgencies \<or> rows_of s pt = [])"
  using recommend_suppliers_urgency[of u s m pt q b]
    recommend_suppliers_not_found[of u s pt m q b]
    recommend_suppliers_no_error[of u s pt m q b]
  by metis

lemma recommend_suppliers_ok:
  assumes "schema_ok s" "classifier_ok s" "u \<in> set valid_urgencies" "rows_of s pt \<noteq> []"
  shows "\<exists>env. recommend_suppliers s m pt u q b = Inr (Result env)"
proof -
  have "\<exists>r. recommendation_for s m pt u q b (rows_of s pt) name = Inr r"
    if "name \<in> set (unique (map df_supplier_name (rows_of s pt)))" for name
  proof -
    from that obtain x where "x \<in> set (rows_of s pt)" "df_supplier_name x = name"
      by (auto simp add: set_unique)
    then obtain row where "first_row (rows_of s pt) name = Some row"
      unfolding first_row_def using find_in_set[of x "rows_of s pt" "\<lambda>row. df_supplier_name row = name"]
      by blast
    then show ?thesis using recommendation_for_ok[OF assms(1,2)] by blast
  qed
  then obtain rs where "recommendations_loop s m pt u q b (rows_of s pt)
                (unique (map df_supplier_name (rows_of s pt))) = Inr rs"
    using recommendations_loop_ok by blast
  then show ?thesis using assms(3,4) by (simp add: recommend_suppliers_def rows_of_def Let_def)
qed

lemma api_rejects:
  "req_urgency rq \<notin> set valid_urgencies \<Longrightarrow>
     api_recommend_suppliers (Some s) m rq = HTTPException 400 (UrgenciaDetail valid_urgencies)"
  "req_urgency rq \<in> set valid_urgencies \<Longrightarrow> req_quantity rq \<le> 0 \<Longrightarrow>
     api_recommend_suppliers (Some s) m rq = HTTPException 400 CantidadDetail"
  "req_urgency rq \<in> set valid_urgencies \<Longrightarrow> 0 < req_quantity rq \<Longrightarrow> req_budget rq \<le> 0 \<Longrightarrow>
     api_recommend_suppliers (Some s) m rq = HTTPException 400 PresupuestoDetail"
  by (simp_all add: api_recommend_suppliers_def valid_urgencies_def)

lemma api_accepts:
  assumes "schema_ok s" "classifier_ok s" "req_urgency rq \<in> set valid_urgencies"
    "0 < req_quantity rq" "0 < req_budget rq" "rows_of s (req_product_type rq) \<noteq> []"
  shows "\<exists>env. api_recommend_suppliers (Some s) m rq = Response env
           \<and> recommend_suppliers s m (req_product_type rq) (req_urgency rq) (req_quantity rq)
                (req_budget rq) = Inr (Result env)"
proof -
  obtain env where "recommend_suppliers s m (req_product_type rq) (req_urgency rq)
      (req_quantity rq) (req_budget rq) = Inr (Result env)"
    using recommend_suppliers_ok[OF assms(1,2,3,6)] by blast
  then show ?thesis using assms(3,4,5)
    by (simp add: api_recommend_suppliers_def valid_urgencies_def)
qed

text \<open>
  Claim C3, as the code has it. The recommender returns an error dictionary exactly when
  the urgency is not one of Low, Medium, High, Critical (the message lists the valid
  urgencies) or the product type has no catalog row (the message lists the available
  product types); it does not look at the sign of the quantity or of the budget. Those
  are rejected by the HTTP endpoint, with status 400, before the recommender is called.
  For a request that passes these checks the recommender returns a recommendation result
  and the endpoint passes it on, provided the feature names are columns of the frame and
  the classifier answers.
\<close>

theorem recommend_suppliers_errors:
  "(u \<notin> set valid_urgencies \<longrightarrow>
      recommend_suppliers s m pt u q b = Inr (Error (UrgenciaInvalida valid_urgencies)))
   \<and> (u \<in> set valid_urgencies \<longrightarrow> rows_of s pt = [] \<longrightarrow>
        recommend_suppliers s m pt u q b
          = Inr (Error (ProductoNoEncontrado (unique (map df_product_type (df s))))))
   \<and> ((\<exists>e. recommend_suppliers s m pt u q b = Inr (Error e))
        \<longleftrightarrow> (u \<notin> set valid_urgencies \<or> rows_of s pt = []))
   \<and> (schema_ok s \<longrightarrow> classifier_ok s \<longrightarrow> u \<in> set valid_urgencies \<longrightarrow> rows_of s pt \<noteq> [] \<longrightarrow>
        (\<exists>env. recommend_suppliers s m pt u q b = Inr (Result env)))
   \<and> (req_urgency rq \<notin> set valid_urgencies \<longrightarrow>
        api_recommend_suppliers (Some s) m rq
          = HTTPException 400 (UrgenciaDetail valid_urgencies))
   \<and> (req_urgency rq \<in> set valid_urgencies \<longrightarrow> req_quantity rq \<le> 0 \<longrightarrow>
        api_recommend_suppliers (Some s) m rq = HTTPException 400 CantidadDetail)
   \<and> (req_urgency rq \<in> set valid_urgencies \<longrightarrow> 0 < req_quantity rq \<longrightarrow> req_budget rq \<le> 0 \<longrightarrow>
        api_recommend_suppliers (Some s) m rq = HTTPException 400 PresupuestoDetail)
   \<and> (schema_ok s \<longrightarrow> classifier_ok s \<longrightarrow> req_urgency rq \<in> set valid_urgencies \<longrightarrow>
        0 < req_quantity rq \<longrightarrow> 0 < req_budget rq \<longrightarrow> rows_of s (req_product_type rq) \<noteq> [] \<longrightarrow>
        (\<exists>env. api_recommend_suppliers (Some s) m rq = Response env))"
  using recommend_suppliers_urgency[of u s m pt q b]
    recommend_suppliers_not_found[of u s pt m q b]
    recommend_suppliers_error_iff[of s m pt u q b]
    recommend_suppliers_ok[of s u pt m q b]
    api_rejects[of rq s m]
    api_accepts[of s rq m]
  by blast

theorem recommend_suppliers_errors_witness:
  "recommend_suppliers demo_system 11 ''valve_butterfly'' ''Urgent'' 1 600
       = Inr (Error (UrgenciaInvalida [''Low'', ''Medium'', ''High'', ''Critical'']))
   \<and> recommend_suppliers demo_system 11 ''pump'' ''Low'' 1 600
       = Inr (Error (ProductoNoEncontrado [''valve_butterfly'', ''filter_cloth_roll'']))
   \<and> api_recommend_suppliers (Some demo_system) 11
        \<lparr> req_product_type = ''valve_butterfly'', req_urgency = ''Low'', req_quantity = 0,
          req_budget = 600 \<rparr> = HTTPException 400 CantidadDetail
   \<and> api_recommend_suppliers (Some demo_system) 11
        \<lparr> req_product_type = ''valve_butterfly'', req_urgency = ''Low'', req_quantity = 1,
          req_budget = 0 \<rparr> = HTTPException 400 PresupuestoDetail
   \<and> (\<exists>env. recommend_suppliers demo_system 11 ''valve_butterfly'' ''Low'' 1 600
               = Inr (Result env))"
proof -
  have r: "rows_of demo_system ''valve_butterfly'' \<noteq> []" unfolding demo_rows by simp
  have e: "rows_of demo_system ''pump'' = []"
    by (simp add: rows_of_def demo_system_def demo_alfa_def demo_beta_def demo_alfa_late_def
        demo_gamma_def demo_roll_def)
  have t: "unique (map df_product_type (df demo_system))
             = [''valve_butterfly'', ''filter_cloth_roll'']"
    by (simp add: unique_def demo_system_def demo_alfa_def demo_beta_def demo_alfa_late_def
        demo_gamma_def demo_roll_def)
  have 1: "recommend_suppliers demo_system 11 ''valve_butterfly'' ''Urgent'' 1 600
       = Inr (Error (UrgenciaInvalida [''Low'', ''Medium'', ''High'', ''Critical'']))"
    using recommend_suppliers_errors[of "''Urgent''" demo_system 11 "''valve_butterfly''" 1 600]
    by (simp add: valid_urgencies_def)
  have 2: "recommend_suppliers demo_system 11 ''pump'' ''Low'' 1 600
       = Inr (Error (ProductoNoEncontrado [''valve_butterfly'', ''filter_cloth_roll'']))"
    using recommend_suppliers_errors[of "''Low''" demo_system 11 "''pump''" 1 600] e t
    by (simp add: valid_urgencies_def)
  have 3: "api_recommend_suppliers (Some demo_system) 11
        \<lparr> req_product_type = ''valve_butterfly'', req_urgency = ''Low'', req_quantity = 0,
          req_budget = 600 \<rparr> = HTTPException 400 CantidadDetail"
    using recommend_suppliers_errors[of "''Low''" demo_system 11 "''pump''" 1 600
        "\<lparr> req_product_type = ''valve_butterfly'', req_urgency = ''Low'', req_quantity = 0,
          req_budget = 600 \<rparr>"]
    by (simp add: valid_urgencies_def)
  have 4: "api_recommend_suppliers (Some demo_system) 11
        \<lparr> req_product_type = ''valve_butterfly'', req_urgency = ''Low'', req_quantity = 1,
          req_budget = 0 \<rparr> = HTTPException 400 PresupuestoDetail"
    using recommend_suppliers_errors[of "''Low''" demo_system 11 "''pump''" 1 600
        "\<lparr> req_product_type = ''valve_butterfly'', req_urgency = ''Low'', req_quantity = 1,
          req_budget = 0 \<rparr>"]
    by (simp add: valid_urgencies_def)
  have 5: "\<exists>env. recommend_suppliers demo_system 11 ''valve_butterfly'' ''Low'' 1 600
               = Inr (Result env)"
    using recommend_suppliers_errors[of "''Low''" demo_system 11 "''valve_butterfly''" 1 600]
      demo_schema_ok demo_classifier_ok r
    by (simp add: valid_urgencies_def)
  from 1 2 3 4 5 show ?thesis by blast
qed

text \<open>
  The claim as stated fails for the recommender: with the quantity 0, and with the
  budget 0, it returns a recommendation result.
\<close>

theorem recommend_suppliers_errors_counterexample:
  "returns_result (recommend_suppliers demo_system 11 ''valve_butterfly'' ''Low'' 0 600)
   \<and> returns_result (recommend_suppliers demo_system 11 ''valve_butterfly'' ''Low'' 1 0)"
proof -
  have r: "rows_of demo_system ''valve_butterfly'' \<noteq> []" unfolding demo_rows by simp
  have u: "''Low'' \<in> set valid_urgencies" by (simp add: valid_urgencies_def)
  obtain env0 where "recommend_suppliers demo_system 11 ''valve_butterfly'' ''Low'' 0 600
      = Inr (Result env0)"
    using recommend_suppliers_ok[OF demo_schema_ok demo_classifier_ok u r] by blast
  moreover obtain env1 where "recommend_suppliers demo_system 11 ''valve_butterfly'' ''Low'' 1 0
      = Inr (Result env1)"
    using recommend_suppliers_ok[OF demo_schema_ok demo_classifier_ok u r] by blast
  ultimately show ?thesis by (simp add: returns_result_def)
qed

text \<open>
  A product type without rows reaches the caller of the endpoint with status 500: the
  exception with status 400 is raised inside the \<^verbatim>\<open>try\<close> block and its handler raises it
  again.
\<close>

lemma api_not_found:
  assumes "req_urgency rq \<in> set valid_urgencies" "0 < req_quantity rq" "0 < req_budget rq"
    "rows_of s (req_product_type rq) = []"
  shows "api_recommend_suppliers (Some s) m rq
    = HTTPException 500 (ErrorEnRecomendacion
        (Http400 (ProductoNoEncontrado (unique (map df_product_type (df s))))))"
  using assms recommend_suppliers_not_found[OF assms(1,4), of m "req_quantity rq" "req_budget rq"]
  by (simp add: api_recommend_suppliers_def valid_urgencies_def)

section \<open>The two recommenders\<close>

subsection \<open>the steps of the command-line program\<close>

lemma cli_make_input_data_eq:
  "cli_make_input_data m pt u q b row = make_input_data m pt u q b row"
  by (simp add: cli_make_input_data_def make_input_data_def)

lemma cli_apply_encoding_eq:
  "cli_apply_encoding s encoders frame = apply_encoding s encoders frame"
proof (induction encoders arbitrary: frame)
  case Nil
  show ?case by simp
next
  case (Cons enc encoders)
  obtain g classes where enc: "enc = (g, classes)" by (cases enc)
  show ?case
  proof (cases "map_of frame g")
    case None
    then show ?thesis using Cons.IH by (simp add: enc)
  next
    case (Some c)
    show ?thesis
    proof (cases "transform classes (astype_str s c)")
      case (Inl e)
      then have "e = ValueError" by (rule transform_error)
      then show ?thesis using Some Inl Cons.IH by (simp add: enc)
    next
      case (Inr code)
      then show ?thesis using Some Cons.IH by (simp add: enc)
    qed
  qed
qed

lemma np_where_nonempty: "name \<in> set classes \<Longrightarrow> np_where classes name \<noteq> []"
proof -
  assume "name \<in> set classes"
  then obtain i where "i < length classes" "classes ! i = name"
    by (auto simp add: in_set_conv_nth)
  then have "i \<in> set (np_where classes name)" by (simp add: np_where_def)
  then show ?thesis by auto
qed

lemma cli_supplier_probability_eq:
  "cli_supplier_probability classes ps name =
     (case supplier_probability classes ps name of
        Inl e \<Rightarrow> Inl e
      | Inr p \<Rightarrow> Inr (if name \<in> set classes then Float64 p else PyFloat 0.0))"
proof (cases "name \<in> set classes")
  case True
  then have "np_where classes name \<noteq> []" by (rule np_where_nonempty)
  then show ?thesis
    using True
    by (simp add: cli_supplier_probability_def supplier_probability_def split: sum.splits)
next
  case False
  then have "np_where classes name = []" by (rule np_where_empty)
  then show ?thesis
    using False by (simp add: cli_supplier_probability_def supplier_probability_def)
qed

lemma cli_make_recommendation_copied:
  "same_offer (make_recommendation name row q b p) (cli_make_recommendation name row q b pn)"
  by (simp add: same_offer_def make_recommendation_def cli_make_recommendation_def Let_def)

lemma cli_make_recommendation_rounded:
  "total_cost (cli_make_recommendation name row q b pn) = np_round (cost_of row q) 2"
  "probability_score (cli_make_recommendation name row q b pn) = round_number pn 3"
  "final_score (cli_make_recommendation name row q b pn)
     = np_round (weighted_sum (cli_make_recommendation name row q b pn)) 3"
  "recommendation_level (cli_make_recommendation name row q b pn)
     = cli_level_of (weighted_sum (cli_make_recommendation name row q b pn))"
  by (simp_all add: cli_make_recommendation_def Let_def cost_of_def weighted_sum_def
      cli_level_of_def)

lemma round_number_probability:
  "round_number (if c then Float64 p else PyFloat 0.0) 3 = (if c then np_round p 3 else 0)"
  by (simp add: round_number_def py_round_zero)

lemma cli_recommendation_for_Inl:
  assumes "recommendation_for s m pt u q b rows name = Inl e"
  shows "cli_recommendation_for s m pt u q b rows name = Inl e"
  using assms
  by (auto simp add: recommendation_for_def cli_recommendation_for_def cli_make_input_data_eq
      cli_apply_encoding_eq cli_supplier_probability_eq split: sum.splits)

lemma cli_recommendation_for_Inr:
  assumes "recommendation_for s m pt u q b rows name = Inr r"
  shows "\<exists>c. cli_recommendation_for s m pt u q b rows name = Inr c
            \<and> cli_counterpart s m pt u q b rows r c"
proof -
  from assms obtain row input X ps p where
    row: "first_row rows name = Some row"
    and i: "apply_encoding s (label_encoders s) (make_input_data m pt u q b row) = Inr input"
    and x: "select_columns input (feature_names s) = Inr X"
    and ps: "model s X = Inr ps"
    and p: "supplier_probability (target_encoder s) ps name = Inr p"
    and r: "r = make_recommendation name row q b p"
    by (rule recommendation_for_Inr)
  have n: "supplier_name r = name" unfolding r by (rule make_recommendation_copied(1))
  have "cli_recommendation_for s m pt u q b rows name
      = Inr (cli_make_recommendation name row q b
               (if name \<in> set (target_encoder s) then Float64 p else PyFloat 0.0))"
    using row i x ps p
    by (simp add: cli_recommendation_for_def cli_make_input_data_eq cli_apply_encoding_eq
        cli_supplier_probability_eq iloc0_filter first_row_def)
  then show ?thesis
    unfolding cli_counterpart_def n using row i x ps p r by blast
qed

lemma cli_recommendations_loop_Inl:
  "recommendations_loop s m pt u q b rows names = Inl e \<Longrightarrow>
     cli_recommendations_loop s m pt u q b rows names = Inl e"
proof (induction names)
  case Nil
  then show ?case by simp
next
  case (Cons name names)
  show ?case
  proof (cases "recommendation_for s m pt u q b rows name")
    case (Inl e')
    then have "e' = e" using Cons.prems by simp
    then show ?thesis using cli_recommendation_for_Inl[OF Inl] by simp
  next
    case (Inr r)
    obtain c where c: "cli_recommendation_for s m pt u q b rows name = Inr c"
      using cli_recommendation_for_Inr[OF Inr] by blast
    have "recommendations_loop s m pt u q b rows names = Inl e"
      using Cons.prems Inr by (simp split: sum.splits)
    then have "cli_recommendations_loop s m pt u q b rows names = Inl e" by (rule Cons.IH)
    then show ?thesis using c by simp
  qed
qed

lemma cli_recommendations_loop_Inr:
  "recommendations_loop s m pt u q b rows names = Inr rs \<Longrightarrow>
     \<exists>cs. cli_recommendations_loop s m pt u q b rows names = Inr cs
          \<and> list_all2 (cli_counterpart s m pt u q b rows) rs cs"
proof (induction names arbitrary: rs)
  case Nil
  then show ?case by simp
next
  case (Cons name names)
  from Cons.prems obtain r rs' where
    r: "recommendation_for s m pt u q b rows name = Inr r"
    and l: "recommendations_loop s m pt u q b rows names = Inr rs'"
    and rs: "rs = r # rs'"
    unfolding recommendations_loop_Cons by blast
  obtain c where c: "cli_recommendation_for s m pt u q b rows name = Inr c"
    "cli_counterpart s m pt u q b rows r c"
    using cli_recommendation_for_Inr[OF r] by blast
  obtain cs where cs: "cli_recommendations_loop s m pt u q b rows names = Inr cs"
    "list_all2 (cli_counterpart s m pt u q b rows) rs' cs"
    using Cons.IH[OF l] by blast
  have "cli_recommendations_loop s m pt u q b rows (name # names) = Inr (c # cs)"
    using c(1) cs(1) by simp
  then show ?case using c(2) cs(2) rs by simp
qed

lemma cli_recommend_suppliers_normal:
  "cli_recommend_suppliers s m pt u q b =
     (if u \<notin> set valid_urgencies then Inr (Error (UrgenciaInvalida valid_urgencies))
      else if rows_of s pt = []
           then Inr (Error (ProductoNoEncontrado (unique (map df_product_type (df s)))))
           else (case cli_recommendations_loop s m pt u q b (rows_of s pt)
                        (unique (map df_supplier_name (rows_of s pt))) of
                   Inl e \<Rightarrow> Inl e
                 | Inr cs \<Rightarrow>
                     Inr (Result \<lparr> res_product_type = pt, res_urgency = u, res_quantity = q,
                                   res_budget = b,
                                   recommendations = list_sort final_score True cs,
                                   total_options = int (length cs) \<rparr>)))"
proof -
  have v: "[''Low'', ''Medium'', ''High'', ''Critical''] = valid_urgencies"
    by (simp add: valid_urgencies_def)
  show ?thesis
    unfolding cli_recommend_suppliers_def v rows_of_def Let_def length_list_sort ..
qed

lemma recommend_suppliers_normal:
  "recommend_suppliers s m pt u q b =
     (if u \<notin> set valid_urgencies then Inr (Error (UrgenciaInvalida valid_urgencies))
      else if rows_of s pt = []
           then Inr (Error (ProductoNoEncontrado (unique (map df_product_type (df s)))))
           else (case recommendations_loop s m pt u q b (rows_of s pt)
                        (unique (map df_supplier_name (rows_of s pt))) of
                   Inl e \<Rightarrow> Inl e
                 | Inr rs \<Rightarrow>
                     Inr (Result \<lparr> res_product_type = pt, res_urgency = u, res_quantity = q,
                                   res_budget = b,
                                   recommendations = list_sort final_score True rs,
                                   total_options = int (length rs) \<rparr>)))"
  unfolding recommend_suppliers_def rows_of_def Let_def length_list_sort ..

lemma cli_raises:
  assumes "recommend_suppliers s m pt u q b = Inl e"
  shows "cli_recommend_suppliers s m pt u q b = Inl e"
proof -
  have g: "u \<in> set valid_urgencies" "rows_of s pt \<noteq> []"
    using assms unfolding recommend_suppliers_normal by (simp_all split: if_splits)
  then have "recommendations_loop s m pt u q b (rows_of s pt)
      (unique (map df_supplier_name (rows_of s pt))) = Inl e"
    using assms unfolding recommend_suppliers_normal by (simp split: sum.splits)
  then have "cli_recommendations_loop s m pt u q b (rows_of s pt)
      (unique (map df_supplier_name (rows_of s pt))) = Inl e"
    by (rule cli_recommendations_loop_Inl)
  then show ?thesis unfolding cli_recommend_suppliers_normal using g by simp
qed

lemma cli_error:
  assumes "recommend_suppliers s m pt u q b = Inr (Error msg)"
  shows "cli_recommend_suppliers s m pt u q b = Inr (Error msg)"
proof (cases "u \<in> set valid_urgencies \<and> rows_of s pt \<noteq> []")
  case True
  then show ?thesis
    using assms unfolding recommend_suppliers_normal by (simp split: sum.splits)
next
  case False
  then show ?thesis
    using assms unfolding recommend_suppliers_normal cli_recommend_suppliers_normal by auto
qed

lemma cli_result:
  assumes "recommend_suppliers s m pt u q b = Inr (Result env)"
  shows "\<exists>rs cs. recommendations env = list_sort final_score True rs
           \<and> list_all2 (cli_counterpart s m pt u q b (rows_of s pt)) rs cs
           \<and> cli_recommend_suppliers s m pt u q b
               = Inr (Result (env\<lparr>recommendations := list_sort final_score True cs\<rparr>))"
proof -
  from assms obtain rs where
    g: "u \<in> set valid_urgencies" "rows_of s pt \<noteq> []"
    and l: "recommendations_loop s m pt u q b (rows_of s pt)
          (unique (map df_supplier_name (rows_of s pt))) = Inr rs"
    and e: "env = \<lparr> res_product_type = pt, res_urgency = u, res_quantity = q, res_budget = b,
             recommendations = list_sort final_score True rs,
             total_options = int (length rs) \<rparr>"
    by (rule recommend_suppliers_Result)
  obtain cs where cs: "cli_recommendations_loop s m pt u q b (rows_of s pt)
          (unique (map df_supplier_name (rows_of s pt))) = Inr cs"
    and a: "list_all2 (cli_counterpart s m pt u q b (rows_of s pt)) rs cs"
    using cli_recommendations_loop_Inr[OF l] by blast
  have "length cs = length rs" using a by (simp add: list_all2_lengthD)
  then have "cli_recommend_suppliers s m pt u q b
               = Inr (Result (env\<lparr>recommendations := list_sort final_score True cs\<rparr>))"
    unfolding cli_recommend_suppliers_normal using g cs e by simp
  moreover have "recommendations env = list_sort final_score True rs" using e by simp
  ultimately show ?thesis using a by blast
qed

lemma cli_counterpart_fields:
  assumes "cli_counterpart s m pt u q b rows r c"
  shows "same_offer r c
     \<and> (\<exists>row input X ps p.
           first_row rows (supplier_name r) = Some row
         \<and> apply_encoding s (label_encoders s) (make_input_data m pt u q b row) = Inr input
         \<and> select_columns input (feature_names s) = Inr X
         \<and> model s X = Inr ps
         \<and> supplier_probability (target_encoder s) ps (supplier_name r) = Inr p
         \<and> total_cost r = py_round (cost_of row q) 2
         \<and> total_cost c = np_round (cost_of row q) 2
         \<and> probability_score r = py_round p 3
         \<and> probability_score c
              = (if supplier_name r \<in> set (target_encoder s) then np_round p 3 else 0))
     \<and> final_score r = py_round (weighted_sum r) 3
     \<and> final_score c = np_round (weighted_sum c) 3
     \<and> recommendation_level r = level_of (weighted_sum r)
     \<and> recommendation_level c = cli_level_of (weighted_sum c)"
proof -
  from assms obtain row input X ps p where
    row: "first_row rows (supplier_name r) = Some row"
    and i: "apply_encoding s (label_encoders s) (make_input_data m pt u q b row) = Inr input"
    and x: "select_columns input (feature_names s) = Inr X"
    and ps: "model s X = Inr ps"
    and p: "supplier_probability (target_encoder s) ps (supplier_name r) = Inr p"
    and r: "r = make_recommendation (supplier_name r) row q b p"
    and c: "c = cli_make_recommendation (supplier_name r) row q b
                  (if supplier_name r \<in> set (target_encoder s) then Float64 p else PyFloat 0.0)"
    unfolding cli_counterpart_def by blast
  define pn where "pn = (if supplier_name r \<in> set (target_encoder s) then Float64 p
                          else PyFloat 0.0)"
  have c': "c = cli_make_recommendation (supplier_name r) row q b pn" using c pn_def by simp
  have 1: "same_offer r c"
    using cli_make_recommendation_copied[of "supplier_name r" row q b p pn] r c' by simp
  have 2: "total_cost r = py_round (cost_of row q) 2"
    using r make_recommendation_cost(1)[of "supplier_name r" row q b p] by simp
  have 3: "total_cost c = np_round (cost_of row q) 2"
    unfolding c' by (rule cli_make_recommendation_rounded(1))
  have 4: "probability_score r = py_round p 3"
    using r make_recommendation_probability[of "supplier_name r" row q b p] by simp
  have 5: "probability_score c
              = (if supplier_name r \<in> set (target_encoder s) then np_round p 3 else 0)"
    unfolding c' cli_make_recommendation_rounded(2) pn_def by (rule round_number_probability)
  have 6: "final_score r = py_round (weighted_sum r) 3"
    using r make_recommendation_score[of "supplier_name r" row q b p] by simp
  have 7: "final_score c = np_round (weighted_sum c) 3"
    unfolding c' by (rule cli_make_recommendation_rounded(3))
  have 8: "recommendation_level r = level_of (weighted_sum r)"
    using r make_recommendation_level[of "supplier_name r" row q b p] by simp
  have 9: "recommendation_level c = cli_level_of (weighted_sum c)"
    unfolding c' by (rule cli_make_recommendation_rounded(4))
  from row i x ps p 1 2 3 4 5 6 7 8 9 show ?thesis by blast
qed

subsection \<open>the command-line program on the example\<close>

lemma cli_recommendation_for_const_model:
  assumes "schema_ok s" "\<And>X. model s X = Inr ps" "first_row rows name = Some row"
    "cli_supplier_probability (target_encoder s) ps name = Inr pn"
  shows "cli_recommendation_for s m pt u q b rows name
           = Inr (cli_make_recommendation name row q b pn)"
proof -
  obtain input where
    i: "apply_encoding s (label_encoders s) (make_input_data m pt u q b row) = Inr input"
    and c: "map fst input = map fst (make_input_data m pt u q b row)"
    using apply_encoding_total by blast
  have "fst ` set input = set input_columns"
    using c map_fst_make_input_data by (metis set_map)
  then have "set (feature_names s) \<subseteq> fst ` set input" using assms(1) by (simp add: schema_ok_def)
  then obtain X where x: "select_columns input (feature_names s) = Inr X"
    using select_columns_ok by blast
  show ?thesis
    using assms(2)[of X] assms(3,4) i x
    by (simp add: cli_recommendation_for_def cli_make_input_data_eq cli_apply_encoding_eq
        iloc0_filter first_row_def)
qed

lemma demo_cli_probabilities:
  "cli_supplier_probability (target_encoder demo_system) [fl 0.0014, fl 0.4995] ''Alfa''
     = Inr (Float64 (fl 0.0014))"
  "cli_supplier_probability (target_encoder demo_system) [fl 0.0014, fl 0.4995] ''Beta''
     = Inr (Float64 (fl 0.4995))"
  "cli_supplier_probability (target_encoder demo_system) [fl 0.0014, fl 0.4995] ''Gamma''
     = Inr (PyFloat 0)"
  by (simp_all add: cli_supplier_probability_def np_where_def getitem_def demo_system_def
      upt_rec)

lemma demo_cli_for:
  "cli_recommendation_for demo_system m ''valve_butterfly'' u q b
      [demo_alfa, demo_beta, demo_alfa_late, demo_gamma] ''Alfa''
     = Inr (cli_make_recommendation ''Alfa'' demo_alfa q b (Float64 (fl 0.0014)))"
  "cli_recommendation_for demo_system m ''valve_butterfly'' u q b
      [demo_alfa, demo_beta, demo_alfa_late, demo_gamma] ''Beta''
     = Inr (cli_make_recommendation ''Beta'' demo_beta q b (Float64 (fl 0.4995)))"
  "cli_recommendation_for demo_system m ''valve_butterfly'' u q b
      [demo_alfa, demo_beta, demo_alfa_late, demo_gamma] ''Gamma''
     = Inr (cli_make_recommendation ''Gamma'' demo_gamma q b (PyFloat 0))"
  by (rule cli_recommendation_for_const_model[OF demo_schema_ok demo_model demo_first_rows(1)
          demo_cli_probabilities(1)],
      rule cli_recommendation_for_const_model[OF demo_schema_ok demo_model demo_first_rows(2)
          demo_cli_probabilities(2)],
      rule cli_recommendation_for_const_model[OF demo_schema_ok demo_model demo_first_rows(3)
          demo_cli_probabilities(3)])

lemma demo_cli_loop:
  "cli_recommendations_loop demo_system m ''valve_butterfly'' u q b
      [demo_alfa, demo_beta, demo_alfa_late, demo_gamma] [''Alfa'', ''Beta'', ''Gamma'']
     = Inr [cli_make_recommendation ''Alfa'' demo_alfa q b (Float64 (fl 0.0014)),
            cli_make_recommendation ''Beta'' demo_beta q b (Float64 (fl 0.4995)),
            cli_make_recommendation ''Gamma'' demo_gamma q b (PyFloat 0)]"
  by (simp add: demo_cli_for)

lemma demo_cli_entries:
  "cli_make_recommendation ''Alfa'' demo_alfa 1 600 (Float64 (fl 0.0014)) = demo_cli_alfa"
  "cli_make_recommendation ''Beta'' demo_beta 1 600 (Float64 (fl 0.4995)) = demo_cli_beta"
  "cli_make_recommendation ''Gamma'' demo_gamma 1 600 (PyFloat 0) = demo_cli_gamma"
  by (simp_all add: cli_make_recommendation_def round_number_def
      demo_alfa_def demo_beta_def demo_gamma_def
      demo_cli_alfa_def demo_cli_beta_def demo_cli_gamma_def
      demo_entry_alfa_def demo_entry_beta_def demo_entry_gamma_def float_eval)

lemma demo_cli_sorted:
  "list_sort final_score True [demo_cli_alfa, demo_cli_beta, demo_cli_gamma]
     = [demo_cli_beta, demo_cli_alfa, demo_cli_gamma]"
  by (simp add: list_sort_def sort_key_def insort_key.simps
      demo_cli_alfa_def demo_cli_beta_def demo_cli_gamma_def
      demo_entry_alfa_def demo_entry_beta_def demo_entry_gamma_def demo_fl)

lemma demo_cli_run:
  "cli_recommend_suppliers demo_system 11 ''valve_butterfly'' ''Low'' 1 600 =
     Inr (Result demo_cli_envelope)"
  unfolding cli_recommend_suppliers_normal demo_rows demo_names demo_cli_loop demo_cli_entries
  by (simp add: valid_urgencies_def demo_cli_sorted demo_cli_envelope_def demo_envelope_def)

text \<open>
  Claim C9, as the code has it. On the same system, reference month and request the
  recommender of the command-line program raises what the recommender of the
  microservice raises and returns the same error dictionary. When the microservice
  returns a result, so does the command-line program, with the same request fields and
  the same \<open>total_options\<close>; before the sort the two lists hold entries for the same
  suppliers in the same order, and the two entries of a supplier agree in every field
  that is copied or compared (\<open>same_offer\<close>). They differ in the rest: the microservice
  rounds \<open>total_cost\<close>, \<open>probability_score\<close> and \<open>final_score\<close> with Python's
  \<^verbatim>\<open>round\<close> on a \<^verbatim>\<open>float\<close>, the command-line program with numpy's on a
  \<^verbatim>\<open>numpy.float64\<close>; each program sums its own \<open>probability_score\<close>, takes the level
  from its own sum and sorts by its own \<open>final_score\<close>; and the levels of the
  command-line program start with a symbol.
\<close>

theorem cli_agrees_up_to_rounding:
  "(case recommend_suppliers s m pt u q b of
      Inl e \<Rightarrow> cli_recommend_suppliers s m pt u q b = Inl e
    | Inr (Error msg) \<Rightarrow> cli_recommend_suppliers s m pt u q b = Inr (Error msg)
    | Inr (Result env) \<Rightarrow>
        (\<exists>rs cs.
            recommendations env = list_sort final_score True rs
          \<and> cli_recommend_suppliers s m pt u q b
               = Inr (Result (env\<lparr>recommendations := list_sort final_score True cs\<rparr>))
          \<and> list_all2 (\<lambda>r c.
               same_offer r c
             \<and> (\<exists>row input X ps p.
                   first_row (rows_of s pt) (supplier_name r) = Some row
                 \<and> apply_encoding s (label_encoders s) (make_input_data m pt u q b row)
                      = Inr input
                 \<and> select_columns input (feature_names s) = Inr X
                 \<and> model s X = Inr ps
                 \<and> supplier_probability (target_encoder s) ps (supplier_name r) = Inr p
                 \<and> total_cost r = py_round (cost_of row q) 2
                 \<and> total_cost c = np_round (cost_of row q) 2
                 \<and> probability_score r = py_round p 3
                 \<and> probability_score c
                      = (if supplier_name r \<in> set (target_encoder s) then np_round p 3 else 0))
             \<and> final_score r = py_round (weighted_sum r) 3
             \<and> final_score c = np_round (weighted_sum c) 3
             \<and> recommendation_level r = level_of (weighted_sum r)
             \<and> recommendation_level c = cli_level_of (weighted_sum c)) rs cs))"
proof (cases "recommend_suppliers s m pt u q b")
  case (Inl e)
  then show ?thesis using cli_raises[OF Inl] by simp
next
  case (Inr res)
  show ?thesis
  proof (cases res)
    case (Error msg)
    then show ?thesis using Inr cli_error[of s m pt u q b msg] by simp
  next
    case (Result env)
    then have run: "recommend_suppliers s m pt u q b = Inr (Result env)" using Inr by simp
    obtain rs cs where
      1: "recommendations env = list_sort final_score True rs"
      and 2: "list_all2 (cli_counterpart s m pt u q b (rows_of s pt)) rs cs"
      and 3: "cli_recommend_suppliers s m pt u q b
               = Inr (Result (env\<lparr>recommendations := list_sort final_score True cs\<rparr>))"
      using cli_result[OF run] by blast
    have "list_all2 (\<lambda>r c.
               same_offer r c
             \<and> (\<exists>row input X ps p.
                   first_row (rows_of s pt) (supplier_name r) = Some row
                 \<and> apply_encoding s (label_encoders s) (make_input_data m pt u q b row)
                      = Inr input
                 \<and> select_columns input (feature_names s) = Inr X
                 \<and> model s X = Inr ps
                 \<and> supplier_probability (target_encoder s) ps (supplier_name r) = Inr p
                 \<and> total_cost r = py_round (cost_of row q) 2
                 \<and> total_cost c = np_round (cost_of row q) 2
                 \<and> probability_score r = py_round p 3
                 \<and> probability_score c
                      = (if supplier_name r \<in> set (target_encoder s) then np_round p 3 else 0))
             \<and> final_score r = py_round (weighted_sum r) 3
             \<and> final_score c = np_round (weighted_sum c) 3
             \<and> recommendation_level r = level_of (weighted_sum r)
             \<and> recommendation_level c = cli_level_of (weighted_sum c)) rs cs"
      by (rule list_all2_mono[OF 2]) (rule cli_counterpart_fields)
    then have "\<exists>rs cs.
            recommendations env = list_sort final_score True rs
          \<and> cli_recommend_suppliers s m pt u q b
               = Inr (Result (env\<lparr>recommendations := list_sort final_score True cs\<rparr>))
          \<and> list_all2 (\<lambda>r c.
               same_offer r c
             \<and> (\<exists>row input X ps p.
                   first_row (rows_of s pt) (supplier_name r) = Some row
                 \<and> apply_encoding s (label_encoders s) (make_input_data m pt u q b row)
                      = Inr input
                 \<and> select_columns input (feature_names s) = Inr X
                 \<and> model s X = Inr ps
                 \<and> supplier_probability (target_encoder s) ps (supplier_name r) = Inr p
                 \<and> total_cost r = py_round (cost_of row q) 2
                 \<and> total_cost c = np_round (cost_of row q) 2
                 \<and> probability_score r = py_round p 3
                 \<and> probability_score c
                      = (if supplier_name r \<in> set (target_encoder s) then np_round p 3 else 0))
             \<and> final_score r = py_round (weighted_sum r) 3
             \<and> final_score c = np_round (weighted_sum c) 3
             \<and> recommendation_level r = level_of (weighted_sum r)
             \<and> recommendation_level c = cli_level_of (weighted_sum c)) rs cs"
      using 1 3 by blast
    then show ?thesis unfolding run by (simp only: sum.case result.case)
  qed
qed

theorem cli_agrees_up_to_rounding_witness:
  "recommend_suppliers demo_system 11 ''valve_butterfly'' ''Low'' 1 600
       = Inr (Result demo_envelope)
   \<and> cli_recommend_suppliers demo_system 11 ''valve_butterfly'' ''Low'' 1 600
       = Inr (Result demo_cli_envelope)
   \<and> (\<exists>rs cs.
         recommendations demo_envelope = list_sort final_score True rs
       \<and> recommendations demo_cli_envelope = list_sort final_score True cs
       \<and> list_all2 same_offer rs cs
       \<and> list_all2 (\<lambda>r c. final_score r = py_round (weighted_sum r) 3
                         \<and> final_score c = np_round (weighted_sum c) 3) rs cs)"
proof -
  have "\<exists>rs cs.
            recommendations demo_envelope = list_sort final_score True rs
          \<and> cli_recommend_suppliers demo_system 11 ''valve_butterfly'' ''Low'' 1 600
               = Inr (Result (demo_envelope\<lparr>recommendations :=
                                 list_sort final_score True cs\<rparr>))
          \<and> list_all2 (\<lambda>r c.
               same_offer r c
             \<and> (\<exists>row input X ps p.
                   first_row (rows_of demo_system ''valve_butterfly'') (supplier_name r) = Some row
                 \<and> apply_encoding demo_system (label_encoders demo_system)
                      (make_input_data 11 ''valve_butterfly'' ''Low'' 1 600 row)
                      = Inr input
                 \<and> select_columns input (feature_names demo_system) = Inr X
                 \<and> model demo_system X = Inr ps
                 \<and> supplier_probability (target_encoder demo_system) ps (supplier_name r) = Inr p
                 \<and> total_cost r = py_round (cost_of row 1) 2
                 \<and> total_cost c = np_round (cost_of row 1) 2
                 \<and> probability_score r = py_round p 3
                 \<and> probability_score c
                      = (if supplier_name r \<in> set (target_encoder demo_system) then np_round p 3 else 0))
             \<and> final_score r = py_round (weighted_sum r) 3
             \<and> final_score c = np_round (weighted_sum c) 3
             \<and> recommendation_level r = level_of (weighted_sum r)
             \<and> recommendation_level c = cli_level_of (weighted_sum c)) rs cs"
    using cli_agrees_up_to_rounding[of demo_system 11 "''valve_butterfly''" "''Low''" 1 600]
    unfolding demo_run by (simp only: sum.case result.case)
  then obtain rs cs where
    1: "recommendations demo_envelope = list_sort final_score True rs"
    and 2: "cli_recommend_suppliers demo_system 11 ''valve_butterfly'' ''Low'' 1 600
               = Inr (Result (demo_envelope\<lparr>recommendations :=
                                 list_sort final_score True cs\<rparr>))"
    and 3: "list_all2 (\<lambda>r c.
               same_offer r c
             \<and> (\<exists>row input X ps p.
                   first_row (rows_of demo_system ''valve_butterfly'') (supplier_name r) = Some row
                 \<and> apply_encoding demo_system (label_encoders demo_system)
                      (make_input_data 11 ''valve_butterfly'' ''Low'' 1 600 row)
                      = Inr input
                 \<and> select_columns input (feature_names demo_system) = Inr X
                 \<and> model demo_system X = Inr ps
                 \<and> supplier_probability (target_encoder demo_system) ps (supplier_name r) = Inr p
                 \<and> total_cost r = py_round (cost_of row 1) 2
                 \<and> total_cost c = np_round (cost_of row 1) 2
                 \<and> probability_score r = py_round p 3
                 \<and> probability_score c
                      = (if supplier_name r \<in> set (target_encoder demo_system) then np_round p 3 else 0))
             \<and> final_score r = py_round (weighted_sum r) 3
             \<and> final_score c = np_round (weighted_sum c) 3
             \<and> recommendation_level r = level_of (weighted_sum r)
             \<and> recommendation_level c = cli_level_of (weighted_sum c)) rs cs"
    by blast
  have e: "demo_cli_envelope
      = demo_envelope\<lparr>recommendations := list_sort final_score True cs\<rparr>"
    using 2 unfolding demo_cli_run by simp
  have 4: "recommendations demo_cli_envelope = list_sort final_score True cs"
    by (subst e) simp
  have 5: "list_all2 same_offer rs cs" by (rule list_all2_mono[OF 3]) simp
  have 6: "list_all2 (\<lambda>r c. final_score r = py_round (weighted_sum r) 3
                         \<and> final_score c = np_round (weighted_sum c) 3) rs cs"
    by (rule list_all2_mono[OF 3]) simp
  from demo_run demo_cli_run 1 4 5 6 show ?thesis by blast
qed

text \<open>
  The claim as stated, that the two envelopes are equal, fails. In the example the
  classifier gives the supplier Beta the probability 0.4995, whose double lies below
  0.4995: the microservice reports the probability score 0.499 and the level
  \<open>Recomendado\<close>; the command-line program multiplies by 1000 in float arithmetic,
  gets 499.5, reports the probability score 0.5 and, the sum reaching 0.75 with it,
  three stars followed by \<open>Altamente Recomendado\<close>.
\<close>

theorem cli_agrees_up_to_rounding_counterexample:
  "recommend_suppliers demo_system 11 ''valve_butterfly'' ''Low'' 1 600
       = Inr (Result demo_envelope)
   \<and> cli_recommend_suppliers demo_system 11 ''valve_butterfly'' ''Low'' 1 600
       = Inr (Result demo_cli_envelope)
   \<and> map supplier_name (recommendations demo_envelope) = [''Beta'', ''Alfa'', ''Gamma'']
   \<and> map supplier_name (recommendations demo_cli_envelope) = [''Beta'', ''Alfa'', ''Gamma'']
   \<and> map probability_score (recommendations demo_envelope) = [fl 0.499, fl 0.001, 0]
   \<and> map probability_score (recommendations demo_cli_envelope) = [0.5, fl 0.001, 0]
   \<and> fl 0.499 < 0.5
   \<and> map recommendation_level (recommendations demo_envelope)
       = [''Recomendado'', ''Aceptable'', ''Aceptable'']
   \<and> map recommendation_level (recommendations demo_cli_envelope)
       = [star @ star @ star @ '' Altamente Recomendado'', star @ '' Aceptable'',
          star @ '' Aceptable'']
   \<and> cli_recommend_suppliers demo_system 11 ''valve_butterfly'' ''Low'' 1 600
       \<noteq> recommend_suppliers demo_system 11 ''valve_butterfly'' ''Low'' 1 600"
proof -
  have n: "map supplier_name (recommendations demo_envelope) = [''Beta'', ''Alfa'', ''Gamma'']"
    "map supplier_name (recommendations demo_cli_envelope) = [''Beta'', ''Alfa'', ''Gamma'']"
    by (simp_all add: demo_cli_envelope_def demo_envelope_def demo_cli_alfa_def
        demo_cli_beta_def demo_cli_gamma_def demo_entry_beta_def demo_entry_alfa_def
        demo_entry_gamma_def)
  have p: "map probability_score (recommendations demo_envelope) = [fl 0.499, fl 0.001, 0]"
    "map probability_score (recommendations demo_cli_envelope) = [0.5, fl 0.001, 0]"
    by (simp_all add: demo_cli_envelope_def demo_envelope_def demo_cli_alfa_def
        demo_cli_beta_def demo_cli_gamma_def demo_entry_beta_def demo_entry_alfa_def
        demo_entry_gamma_def)
  have l: "fl 0.499 < (0.5 :: rat)" by (simp add: demo_fl)
  have k: "map recommendation_level (recommendations demo_envelope)
       = [''Recomendado'', ''Aceptable'', ''Aceptable'']"
    "map recommendation_level (recommendations demo_cli_envelope)
       = [star @ star @ star @ '' Altamente Recomendado'', star @ '' Aceptable'',
          star @ '' Aceptable'']"
    by (simp_all add: demo_cli_envelope_def demo_envelope_def demo_cli_alfa_def
        demo_cli_beta_def demo_cli_gamma_def demo_entry_beta_def demo_entry_alfa_def
        demo_entry_gamma_def)
  have "map probability_score (recommendations demo_cli_envelope)
      \<noteq> map probability_score (recommendations demo_envelope)"
    unfolding p using l by simp
  then have "demo_cli_envelope \<noteq> demo_envelope" by auto
  then have d: "cli_recommend_suppliers demo_system 11 ''valve_butterfly'' ''Low'' 1 600
       \<noteq> recommend_suppliers demo_system 11 ''valve_butterfly'' ''Low'' 1 600"
    unfolding demo_run demo_cli_run by simp
  from demo_run demo_cli_run n p l k d show ?thesis by blast
qed

end
